theory Spec2Isabelle
  imports Complex_Main
begin

section \<open>Number model\<close>

text \<open>
  The analyzers of \<^verbatim>\<open>ztf_analysis.py\<close> compute on IEEE doubles. A finite double is
  modelled by the real number it denotes (rounding is not modelled: arithmetic on finite
  values is exact), and the three special values are explicit, because the code produces
  and tests not-a-number (\<^verbatim>\<open>np.nan\<close>, \<^verbatim>\<open>np.isnan\<close>). A finite magnitude or
  timestamp is a \<open>real\<close>; a value that may be not-a-number or infinite is a
  \<open>pyfloat\<close>.
\<close>

datatype pyfloat = Fin real | PInf | NInf | NaN

fun isnan :: "pyfloat \<Rightarrow> bool" where
  "isnan NaN = True"
| "isnan _ = False"

fun isfinite :: "pyfloat \<Rightarrow> bool" where
  "isfinite (Fin _) = True"
| "isfinite _ = False"

fun the_fin :: "pyfloat \<Rightarrow> real" where
  "the_fin (Fin x) = x"
| "the_fin _ = 0"

fun fneg :: "pyfloat \<Rightarrow> pyfloat" where
  "fneg (Fin x) = Fin (- x)"
| "fneg PInf = NInf"
| "fneg NInf = PInf"
| "fneg NaN = NaN"

fun fabs :: "pyfloat \<Rightarrow> pyfloat" where
  "fabs (Fin x) = Fin \<bar>x\<bar>"
| "fabs PInf = PInf"
| "fabs NInf = PInf"
| "fabs NaN = NaN"

fun fadd :: "pyfloat \<Rightarrow> pyfloat \<Rightarrow> pyfloat" where
  "fadd NaN _ = NaN"
| "fadd _ NaN = NaN"
| "fadd (Fin x) (Fin y) = Fin (x + y)"
| "fadd PInf NInf = NaN"
| "fadd NInf PInf = NaN"
| "fadd PInf _ = PInf"
| "fadd NInf _ = NInf"
| "fadd (Fin _) PInf = PInf"
| "fadd (Fin _) NInf = NInf"

definition fsub :: "pyfloat \<Rightarrow> pyfloat \<Rightarrow> pyfloat" where
  "fsub a b = fadd a (fneg b)"

text \<open>The sign of an infinite product; a zero factor times an infinity is not a number.\<close>

definition inf_of_sign :: "real \<Rightarrow> pyfloat" where
  "inf_of_sign s = (if 0 < s then PInf else if s < 0 then NInf else NaN)"

fun fmul :: "pyfloat \<Rightarrow> pyfloat \<Rightarrow> pyfloat" where
  "fmul NaN _ = NaN"
| "fmul _ NaN = NaN"
| "fmul (Fin x) (Fin y) = Fin (x * y)"
| "fmul (Fin x) PInf = inf_of_sign x"
| "fmul (Fin x) NInf = inf_of_sign (- x)"
| "fmul PInf (Fin y) = inf_of_sign y"
| "fmul NInf (Fin y) = inf_of_sign (- y)"
| "fmul PInf PInf = PInf"
| "fmul NInf NInf = PInf"
| "fmul PInf NInf = NInf"
| "fmul NInf PInf = NInf"

text \<open>
  Division as numpy does it on arrays (a warning, never an exception): a nonzero number
  over zero is an infinity, zero over zero is not a number. Zeros are taken as positive.
\<close>

fun fdiv :: "pyfloat \<Rightarrow> pyfloat \<Rightarrow> pyfloat" where
  "fdiv NaN _ = NaN"
| "fdiv _ NaN = NaN"
| "fdiv (Fin x) (Fin y) = (if y = 0 then inf_of_sign x else Fin (x / y))"
| "fdiv (Fin _) PInf = Fin 0"
| "fdiv (Fin _) NInf = Fin 0"
| "fdiv PInf (Fin y) = (if 0 \<le> y then PInf else NInf)"
| "fdiv NInf (Fin y) = (if 0 \<le> y then NInf else PInf)"
| "fdiv PInf _ = NaN"
| "fdiv NInf _ = NaN"

text \<open>Comparisons: every comparison with not-a-number is false.\<close>

fun flt :: "pyfloat \<Rightarrow> pyfloat \<Rightarrow> bool" where
  "flt NaN _ = False"
| "flt _ NaN = False"
| "flt (Fin x) (Fin y) = (x < y)"
| "flt NInf NInf = False"
| "flt NInf _ = True"
| "flt PInf _ = False"
| "flt (Fin _) PInf = True"
| "flt (Fin _) NInf = False"

definition fgt :: "pyfloat \<Rightarrow> pyfloat \<Rightarrow> bool" where
  "fgt a b = flt b a"

section \<open>Exceptions\<close>

datatype py_error = TypeError | ValueError | LinAlgError | IndexError | KeyError

section \<open>Light curves\<close>

text \<open>
  The light-curve dictionary \<^verbatim>\<open>{'g': [...], 'r': [...], 'times_g': [...], 'times_r': [...]}\<close>
  that both \<^verbatim>\<open>_parse_ztf_response\<close> and \<^verbatim>\<open>_generate_synthetic_lc\<close> build. The
  fields are named after the arrays the analyzers read them into; an absent light curve
  (\<^verbatim>\<open>None\<close>) is \<open>None\<close>.
\<close>

record lightcurve =
  mags_g :: "real list"
  mags_r :: "real list"
  times_g :: "real list"
  times_r :: "real list"

text \<open>Each band holds one timestamp per magnitude: both producers append them in pairs.\<close>

definition wf_lc :: "lightcurve \<Rightarrow> bool" where
  "wf_lc lc = (length (times_g lc) = length (mags_g lc) \<and> length (times_r lc) = length (mags_r lc))"

section \<open>numpy reductions\<close>

text \<open>\<^verbatim>\<open>np.mean\<close>: the sum over the count; not a number on an empty array.\<close>

definition np_mean :: "real list \<Rightarrow> pyfloat" where
  "np_mean xs = (if xs = [] then NaN else Fin (sum_list xs / real (length xs)))"

text \<open>\<^verbatim>\<open>np.min\<close> and \<^verbatim>\<open>np.max\<close> raise ValueError on an empty array.\<close>

fun np_min :: "real list \<Rightarrow> py_error + real" where
  "np_min [] = Inl ValueError"
| "np_min (x # xs) = Inr (fold min xs x)"

fun np_max :: "real list \<Rightarrow> py_error + real" where
  "np_max [] = Inl ValueError"
| "np_max (x # xs) = Inr (fold max xs x)"

text \<open>\<^verbatim>\<open>np.std\<close>: the population standard deviation (\<^verbatim>\<open>ddof=0\<close>).\<close>

definition np_std :: "real list \<Rightarrow> pyfloat" where
  "np_std xs =
     (if xs = [] then NaN
      else let m = sum_list xs / real (length xs)
           in Fin (sqrt (sum_list (map (\<lambda>x. (x - m)\<^sup>2) xs) / real (length xs))))"

section \<open>Brightness analyzer\<close>

record brightness_result =
  r_mean :: pyfloat
  r_min :: pyfloat
  r_std :: pyfloat
  g_mean :: pyfloat
  g_min :: pyfloat
  priority :: string

text \<open>The feasibility ranking of \<^verbatim>\<open>analyze_brightness\<close> (lines 173 to 184).\<close>

definition priority_of :: "pyfloat \<Rightarrow> string" where
  "priority_of m =
     (if \<not> isnan m then
        (if flt m (Fin 15.5) then ''HIGH''
         else if flt m (Fin 16.5) then ''MEDIUM''
         else if flt m (Fin 17.0) then ''LOW''
         else ''TOO_FAINT'')
      else ''UNKNOWN'')"

definition analyze_brightness :: "lightcurve option \<Rightarrow> py_error + brightness_result option" where
  "analyze_brightness lc_dict =
     (case lc_dict of
        None \<Rightarrow> Inr None
      | Some lc \<Rightarrow>
          (case (if length (mags_r lc) > 0
                 then (case np_min (mags_r lc) of
                         Inl e \<Rightarrow> Inl e
                       | Inr mn \<Rightarrow> Inr (np_mean (mags_r lc), Fin mn, np_std (mags_r lc)))
                 else Inr (NaN, NaN, NaN)) of
             Inl e \<Rightarrow> Inl e
           | Inr (rmean, rmin, rstd) \<Rightarrow>
               (case (if length (mags_g lc) > 0
                      then (case np_min (mags_g lc) of
                              Inl e \<Rightarrow> Inl e
                            | Inr mn \<Rightarrow> Inr (np_mean (mags_g lc), Fin mn))
                      else Inr (NaN, NaN)) of
                  Inl e \<Rightarrow> Inl e
                | Inr (gmean, gmin) \<Rightarrow>
                    Inr (Some \<lparr> r_mean = rmean, r_min = rmin, r_std = rstd,
                                g_mean = gmean, g_min = gmin,
                                priority = priority_of rmean \<rparr>))))"

section \<open>Least-squares line: \<^verbatim>\<open>np.polyfit(x, y, 1)\<close>\<close>

text \<open>
  \<^verbatim>\<open>np.polyfit\<close> of degree 1 returns the coefficients of the least-squares line, the
  slope first. It raises TypeError on an empty \<open>x\<close> and on arrays of different lengths.
  It solves the column-scaled system with \<^verbatim>\<open>lstsq\<close>: with at least two different
  abscissae the system has full rank and the solution is the one of the normal
  equations; a value of \<open>y\<close> that is not finite gives not-a-number coefficients. With all
  abscissae equal to some \<open>x0\<close> the system has rank one: \<^verbatim>\<open>lstsq\<close> returns the
  solution of minimum norm of the scaled system (the rank warning is filtered out by the
  module), and for \<open>x0 = 0\<close> the scaling divides zero by zero and \<^verbatim>\<open>lstsq\<close> raises
  LinAlgError. The result is the pair (slope, intercept).
\<close>

definition polyfit :: "real list \<Rightarrow> pyfloat list \<Rightarrow> py_error + (pyfloat \<times> pyfloat)" where
  "polyfit x y =
     (if x = [] then Inl TypeError
      else if length x \<noteq> length y then Inl TypeError
      else
        let n = real (length x);
            sx = sum_list x;
            sxx = sum_list (map (\<lambda>t. t * t) x);
            d = n * sxx - sx * sx
        in if d = 0 \<and> hd x = 0 then Inl LinAlgError
           else if \<not> list_all isfinite y then Inr (NaN, NaN)
           else
             let ys = map the_fin y;
                 sy = sum_list ys;
                 sxy = sum_list (map2 (*) x ys)
             in if d \<noteq> 0
                then Inr (Fin ((n * sxy - sx * sy) / d), Fin ((sxx * sy - sx * sxy) / d))
                else Inr (Fin (sy / n / (2 * hd x)), Fin (sy / n / 2)))"

section \<open>Fading analyzer\<close>

record fading_result =
  slope_mag_per_day :: pyfloat
  mag_change_1yr :: pyfloat
  is_fading :: bool
  status :: string
  n_observations :: nat

text \<open>The status of \<^verbatim>\<open>analyze_fading\<close> (lines 224 to 229), with the source's labels.\<close>

definition fading_status :: "pyfloat \<Rightarrow> string" where
  "fading_status slope =
     (if flt (fabs slope) (Fin 0.0001) then ''STABLE''
      else if fgt slope (Fin 0.0001) then ''FADING (brightening in mag = getting dimmer)''
      else ''BRIGHTENING (dimming in mag = getting brighter)'')"

definition analyze_fading :: "lightcurve option \<Rightarrow> 'n \<Rightarrow> py_error + fading_result option" where
  "analyze_fading lc_dict object_name =
     (case lc_dict of
        None \<Rightarrow> Inr None
      | Some lc \<Rightarrow>
          if length (mags_r lc) < 5 then Inr None
          else
            (case polyfit (times_r lc) (map Fin (mags_r lc)) of
               Inl e \<Rightarrow> Inl e
             | Inr (slope, intercept) \<Rightarrow>
                 let change = fmul slope (Fin 365)
                 in Inr (Some \<lparr> slope_mag_per_day = slope,
                                 mag_change_1yr = change,
                                 is_fading = fgt change (Fin 0.2),
                                 status = fading_status slope,
                                 n_observations = length (mags_r lc) \<rparr>)))"

section \<open>Time grid and interpolation\<close>

text \<open>
  \<^verbatim>\<open>np.linspace(start, stop, num)\<close> with the end point included: \<open>num\<close> samples,
  the \<open>i\<close>-th one \<open>start + i * step\<close> with \<open>step = (stop - start) / (num - 1)\<close>; a
  single sample is \<open>start\<close>.
\<close>

definition linspace :: "real \<Rightarrow> real \<Rightarrow> nat \<Rightarrow> real list" where
  "linspace start stop num =
     (if num = 1 then [start]
      else map (\<lambda>i. start + real i * ((stop - start) / real (num - 1))) [0..<num])"

text \<open>
  \<^verbatim>\<open>scipy.interpolate.interp1d(x, y, kind='linear', fill_value='extrapolate')\<close>. The
  constructor raises ValueError when \<open>x\<close> and \<open>y\<close> differ in length or are empty, and
  sorts the samples by \<open>x\<close> (a stable sort). The interpolant is the list of sorted samples.
\<close>

definition interp1d :: "real list \<Rightarrow> real list \<Rightarrow> py_error + (real \<times> real) list" where
  "interp1d x y =
     (if length x \<noteq> length y then Inl ValueError
      else if length x < 1 then Inl ValueError
      else Inr (sort_key fst (zip x y)))"

text \<open>\<^verbatim>\<open>np.searchsorted\<close> (left side) on a sorted array: the number of entries below \<open>v\<close>.\<close>

definition searchsorted :: "real list \<Rightarrow> real \<Rightarrow> nat" where
  "searchsorted xs v = length (takeWhile (\<lambda>x. x < v) xs)"

definition np_clip :: "int \<Rightarrow> int \<Rightarrow> int \<Rightarrow> int" where
  "np_clip a_min a_max a = min (max a a_min) a_max"

text \<open>Array indexing; a negative index counts from the end.\<close>

definition np_take :: "'a list \<Rightarrow> int \<Rightarrow> 'a" where
  "np_take xs i = xs ! nat (if i < 0 then i + int (length xs) else i)"

text \<open>
  Evaluating the interpolant at one point (scipy's \<^verbatim>\<open>_call_linear\<close>): the segment is
  found with \<^verbatim>\<open>searchsorted\<close>, clipped into \<open>1 .. len - 1\<close>, and the value is
  \<open>slope * (x_new - x_lo) + y_lo\<close>. Nothing is raised: a segment between two equal
  abscissae divides by zero and yields an infinity or not-a-number. The indices are in
  range for an interpolant of at least one sample.
\<close>

definition call_linear :: "(real \<times> real) list \<Rightarrow> real \<Rightarrow> pyfloat" where
  "call_linear f x_new =
     (let xs = map fst f;
          ys = map snd f;
          i = np_clip 1 (int (length xs) - 1) (int (searchsorted xs x_new));
          lo = i - 1;
          hi = i;
          x_lo = np_take xs lo;
          x_hi = np_take xs hi;
          y_lo = np_take ys lo;
          y_hi = np_take ys hi;
          slope = fdiv (Fin (y_hi - y_lo)) (Fin (x_hi - x_lo))
      in fadd (fmul slope (Fin (x_new - x_lo))) (Fin y_lo))"

section \<open>Formatting\<close>

text \<open>
  The format \<^verbatim>\<open>:.2f\<close> of an f-string: two decimals, the exact value rounded half to
  even, a minus sign for every negative value; \<^verbatim>\<open>nan\<close> and \<^verbatim>\<open>inf\<close> for the special
  values.
\<close>

definition digit_char :: "nat \<Rightarrow> char" where
  "digit_char d = ''0123456789'' ! d"

fun show_nat :: "nat \<Rightarrow> string" where
  "show_nat n = (if n < 10 then [digit_char n] else show_nat (n div 10) @ [digit_char (n mod 10)])"

definition round_half_even :: "real \<Rightarrow> int" where
  "round_half_even x =
     (let f = \<lfloor>x\<rfloor>; d = x - of_int f
      in if d < 1 / 2 then f else if 1 / 2 < d then f + 1 else if even f then f else f + 1)"

fun format_2f :: "pyfloat \<Rightarrow> string" where
  "format_2f (Fin x) =
     (let q = nat (round_half_even (\<bar>x\<bar> * 100))
      in (if x < 0 then ''-'' else []) @ show_nat (q div 100) @ ''.''
           @ [digit_char (q mod 100 div 10), digit_char (q mod 10)])"
| "format_2f PInf = ''inf''"
| "format_2f NInf = ''-inf''"
| "format_2f NaN = ''nan''"

text \<open>The capital delta of the labels, as its two UTF-8 bytes.\<close>

definition delta_utf8 :: string where
  "delta_utf8 = [char_of (206 :: nat), char_of (148 :: nat)]"

section \<open>Color evolution analyzer\<close>

record color_result =
  mean_color_gr :: pyfloat
  color_slope_per_day :: pyfloat
  color_change_1yr :: pyfloat
  is_significant_evolution :: bool
  color_status :: string
  baseline_days :: real

text \<open>\<^verbatim>\<open>np.mean\<close> of an array that may hold special values.\<close>

definition np_mean_f :: "pyfloat list \<Rightarrow> pyfloat" where
  "np_mean_f xs = fdiv (fold (\<lambda>x acc. fadd acc x) xs (Fin 0)) (Fin (real (length xs)))"

text \<open>The status of \<^verbatim>\<open>analyze_color_evolution\<close> (lines 292 to 297).\<close>

definition color_status_of :: "pyfloat \<Rightarrow> pyfloat \<Rightarrow> string" where
  "color_status_of color_slope change =
     (if flt (fabs color_slope) (Fin 0.0001) then ''STABLE''
      else if fgt color_slope (Fin 0.0001)
        then ''REDDENING ('' @ delta_utf8 @ ''(g-r) = +'' @ format_2f (fabs change) @ '' mag/yr)''
      else ''BLUEING ('' @ delta_utf8 @ ''(g-r) = '' @ format_2f change @ '' mag/yr)'')"

text \<open>
  The body of the \<^verbatim>\<open>try\<close> block (lines 273 to 277): both interpolants are built and
  evaluated on the common grid; any exception is caught by the caller.
\<close>

definition interpolate_bands :: "lightcurve \<Rightarrow> real list \<Rightarrow> py_error + (pyfloat list \<times> pyfloat list)" where
  "interpolate_bands lc common_times =
     (case interp1d (times_g lc) (mags_g lc) of
        Inl e \<Rightarrow> Inl e
      | Inr f_g \<Rightarrow>
          (case interp1d (times_r lc) (mags_r lc) of
             Inl e \<Rightarrow> Inl e
           | Inr f_r \<Rightarrow> Inr (map (call_linear f_g) common_times, map (call_linear f_r) common_times)))"

definition analyze_color_evolution :: "lightcurve option \<Rightarrow> py_error + color_result option" where
  "analyze_color_evolution lc_dict =
     (case lc_dict of
        None \<Rightarrow> Inr None
      | Some lc \<Rightarrow>
          if length (mags_g lc) < 3 \<or> length (mags_r lc) < 3 then Inr None
          else
            (case np_min (times_g lc) of Inl e \<Rightarrow> Inl e | Inr min_g \<Rightarrow>
            (case np_min (times_r lc) of Inl e \<Rightarrow> Inl e | Inr min_r \<Rightarrow>
            (case np_max (times_g lc) of Inl e \<Rightarrow> Inl e | Inr max_g \<Rightarrow>
            (case np_max (times_r lc) of Inl e \<Rightarrow> Inl e | Inr max_r \<Rightarrow>
               (let min_time = max min_g min_r;
                    max_time = min max_g max_r
                in if max_time - min_time < 100 then Inr None
                   else
                     (let common_times =
                           linspace min_time max_time (min (length (mags_g lc)) (length (mags_r lc)))
                      in (case interpolate_bands lc common_times of
                            Inl e \<Rightarrow> Inr None
                          | Inr (g_interp, r_interp) \<Rightarrow>
                              (let color_gr = map2 fsub g_interp r_interp
                               in (case polyfit common_times color_gr of
                                     Inl e \<Rightarrow> Inl e
                                   | Inr (color_slope, intercept) \<Rightarrow>
                                       (let change = fmul color_slope (Fin 365)
                                        in Inr (Some \<lparr> mean_color_gr = np_mean_f color_gr,
                                                        color_slope_per_day = color_slope,
                                                        color_change_1yr = change,
                                                        is_significant_evolution = fgt (fabs change) (Fin 0.1),
                                                        color_status = color_status_of color_slope change,
                                                        baseline_days = max_time - min_time \<rparr>))))))))))))"

section \<open>Light-curve acquisition\<close>

text \<open>
  Values that pass through the pipeline untyped: the entries of a catalog row
  (\<^verbatim>\<open>source.to_dict()\<close>) and of the output row.
\<close>

datatype pyvalue = VFloat pyfloat | VInt int | VStr string | VBool bool

text \<open>
  One observation of the service's JSON answer; each key may be missing
  (\<^verbatim>\<open>observation.get\<close>).
\<close>

record observation =
  filtercode :: "string option"
  mag :: "real option"
  mjd :: "real option"

text \<open>\<^verbatim>\<open>str.lower\<close> on the ASCII letters.\<close>

definition lower_char :: "char \<Rightarrow> char" where
  "lower_char c =
     (case map_of (zip ''ABCDEFGHIJKLMNOPQRSTUVWXYZ'' ''abcdefghijklmnopqrstuvwxyz'') c of
        None \<Rightarrow> c
      | Some l \<Rightarrow> l)"

definition py_lower :: "string \<Rightarrow> string" where
  "py_lower s = map lower_char s"

text \<open>One round of the loop of \<^verbatim>\<open>_parse_ztf_response\<close>.\<close>

definition parse_observation :: "observation \<Rightarrow> lightcurve \<Rightarrow> lightcurve" where
  "parse_observation ob lc =
     (let band = py_lower (case filtercode ob of None \<Rightarrow> ''g'' | Some b \<Rightarrow> b)
      in case (mag ob, mjd ob) of
           (Some m, Some t) \<Rightarrow>
             if band = ''g'' then lc\<lparr> times_g := times_g lc @ [t], mags_g := mags_g lc @ [m] \<rparr>
             else if band = ''r'' then lc\<lparr> times_r := times_r lc @ [t], mags_r := mags_r lc @ [m] \<rparr>
             else lc
         | _ \<Rightarrow> lc)"

definition parse_ztf_response :: "observation list \<Rightarrow> lightcurve option" where
  "parse_ztf_response ztf_data =
     (let lc_dict = fold parse_observation ztf_data
                      \<lparr> mags_g = [], mags_r = [], times_g = [], times_r = [] \<rparr>
      in if mags_g lc_dict \<noteq> [] \<or> mags_r lc_dict \<noteq> [] then Some lc_dict else None)"

text \<open>
  What the program does not hold: whether the \<^verbatim>\<open>requests\<close> library could be imported,
  Python's \<^verbatim>\<open>hash\<close> (salted once per process), and numpy's generator, given by its
  seeding function and its three primitive draws on a generator state \<open>'s\<close>.
\<close>

record 's environment =
  has_requests :: bool
  py_hash :: "pyvalue \<Rightarrow> int"
  rng_seed :: "nat \<Rightarrow> 's"
  rng_below :: "nat \<Rightarrow> 's \<Rightarrow> nat \<times> 's"
  rng_sample :: "'s \<Rightarrow> real \<times> 's"
  rng_gauss :: "'s \<Rightarrow> real \<times> 's"

text \<open>
  What the program mutates: the analyzer's attribute \<^verbatim>\<open>use_real_data\<close> and the state
  of numpy's global generator.
\<close>

record 's analyzer_state =
  use_real_data :: bool
  np_random :: 's

text \<open>
  \<^verbatim>\<open>np.random.randint(low, high)\<close> is \<open>low\<close> plus a draw below \<open>high - low\<close>;
  \<^verbatim>\<open>uniform(low, high)\<close> is \<open>low + (high - low) * random_sample()\<close>;
  \<^verbatim>\<open>normal(loc, scale)\<close> is \<open>loc + scale * standard_normal()\<close>; with a size, the
  draws are made one after the other.
\<close>

definition randint :: "'s environment \<Rightarrow> int \<Rightarrow> int \<Rightarrow> 's \<Rightarrow> int \<times> 's" where
  "randint env low high s =
     (let (k, s') = rng_below env (nat (high - low)) s
      in (low + int (k mod nat (high - low)), s'))"

definition uniform :: "'s environment \<Rightarrow> real \<Rightarrow> real \<Rightarrow> 's \<Rightarrow> real \<times> 's" where
  "uniform env low high s = (let (u, s') = rng_sample env s in (low + (high - low) * u, s'))"

definition normal :: "'s environment \<Rightarrow> real \<Rightarrow> real \<Rightarrow> 's \<Rightarrow> real \<times> 's" where
  "normal env loc scale s = (let (z, s') = rng_gauss env s in (loc + scale * z, s'))"

fun draw_n :: "('s \<Rightarrow> real \<times> 's) \<Rightarrow> nat \<Rightarrow> 's \<Rightarrow> real list \<times> 's" where
  "draw_n d 0 s = ([], s)"
| "draw_n d (Suc n) s = (let (x, s') = d s; (xs, s'') = draw_n d n s' in (x # xs, s''))"

text \<open>
  \<^verbatim>\<open>_generate_synthetic_lc\<close>: the generator is seeded from the object name, then the
  draws follow in the order of the source. The state on entry is overwritten by the
  seeding; the state on exit is returned.
\<close>

definition generate_synthetic_lc ::
  "'s environment \<Rightarrow> 's analyzer_state \<Rightarrow> pyvalue \<Rightarrow> pyvalue \<Rightarrow> pyvalue \<Rightarrow> lightcurve \<times> 's analyzer_state" where
  "generate_synthetic_lc env st object_name ra dec =
     (let s0 = rng_seed env (nat (py_hash env object_name mod 2 ^ 32));
          (n_obs_per_band, s1) = randint env 30 150 s0;
          n = nat n_obs_per_band;
          (u_g, s2) = draw_n (uniform env 58000 59000) n s1;
          tms_g = sort u_g;
          (u_r, s3) = draw_n (uniform env 58000 59000) n s2;
          tms_r = sort u_r;
          (base_r_mag, s4) = uniform env 13 17.5 s3;
          (offs, s5) = uniform env (- 0.2) 0.5 s4;
          base_g_mag = base_r_mag - offs;
          (variability_amp, s6) = uniform env 0.1 1.5 s5;
          (noise_g, s7) = draw_n (normal env 0 0.1) n s6;
          (noise_r, s8) = draw_n (normal env 0 0.1) n s7;
          (fade_trend, s9) = uniform env (- 0.003) 0.002 s8;
          fade_g = map (\<lambda>t. fade_trend * (t - hd tms_g)) tms_g;
          fade_r = map (\<lambda>t. fade_trend * (t - hd tms_r)) tms_r;
          (period_g, s10) = uniform env 10 100 s9;
          periodic_component_g = map (\<lambda>t. variability_amp * sin (2 * pi * t / period_g)) tms_g;
          (period_r, s11) = uniform env 10 100 s10;
          periodic_component_r = map (\<lambda>t. variability_amp * sin (2 * pi * t / period_r)) tms_r;
          m_g = map2 (+) (map2 (+) (map (\<lambda>p. base_g_mag + p) periodic_component_g) fade_g) noise_g;
          m_r = map2 (+) (map2 (+) (map (\<lambda>p. base_r_mag + p) periodic_component_r) fade_r) noise_r
      in (\<lparr> mags_g = m_g, mags_r = m_r, times_g = tms_g, times_r = tms_r \<rparr>,
          st\<lparr> np_random := s11 \<rparr>))"

text \<open>
  The outcome of the \<^verbatim>\<open>try\<close> block of \<^verbatim>\<open>query_ztf_lightcurve\<close>: the request raised
  (connection error, timeout, or any other exception up to the decoding of the answer),
  or it answered with a status code and, when the decoded answer is a non-empty
  dictionary with the key \<^verbatim>\<open>result\<close>, the list under that key.
\<close>

datatype http_outcome = RequestRaised | Response int "observation list option"

definition query_ztf_lightcurve ::
  "'s environment \<Rightarrow> http_outcome \<Rightarrow> 's analyzer_state \<Rightarrow> pyvalue \<Rightarrow> pyvalue \<Rightarrow> pyvalue
     \<Rightarrow> lightcurve option \<times> 's analyzer_state" where
  "query_ztf_lightcurve env outcome st ra dec object_name =
     (let fallback = (let (lc, st') = generate_synthetic_lc env st object_name ra dec in (Some lc, st'))
      in if \<not> has_requests env then fallback
         else (case outcome of
                 RequestRaised \<Rightarrow> fallback
               | Response status_code data \<Rightarrow>
                   if status_code = 200 then
                     (case data of
                        None \<Rightarrow> fallback
                      | Some result \<Rightarrow>
                          if length result > 0
                          then (parse_ztf_response result, st\<lparr> use_real_data := True \<rparr>)
                          else fallback)
                   else fallback))"

section \<open>Source analysis\<close>

text \<open>
  \<^verbatim>\<open>analyze_source\<close>. The catalog row is a dictionary; the result is the dictionary
  literal of lines 330 to 351, as the list of its keys and values in the order written.
\<close>

definition analyze_source ::
  "'s environment \<Rightarrow> http_outcome \<Rightarrow> 's analyzer_state \<Rightarrow> (string \<rightharpoonup> pyvalue)
     \<Rightarrow> (py_error + (string \<times> pyvalue) list option) \<times> 's analyzer_state" where
  "analyze_source env outcome st source_dict =
     (case source_dict ''RAdeg'' of None \<Rightarrow> (Inl KeyError, st) | Some ra \<Rightarrow>
     (case source_dict ''DEdeg'' of None \<Rightarrow> (Inl KeyError, st) | Some dec \<Rightarrow>
     (case source_dict ''Objname'' of None \<Rightarrow> (Inl KeyError, st) | Some obj_name \<Rightarrow>
       (let (lc_data, st') = query_ztf_lightcurve env outcome st ra dec obj_name
        in (case lc_data of
              None \<Rightarrow> (Inr None, st')
            | Some lc \<Rightarrow>
               (case analyze_brightness lc_data of Inl e \<Rightarrow> (Inl e, st') | Inr brightness \<Rightarrow>
               (case analyze_fading lc_data obj_name of Inl e \<Rightarrow> (Inl e, st') | Inr fading \<Rightarrow>
               (case analyze_color_evolution lc_data of Inl e \<Rightarrow> (Inl e, st') | Inr color_evol \<Rightarrow>
                  (Inr (Some
                    [(''Objname'', obj_name),
                     (''RAdeg'', ra),
                     (''DEdeg'', dec),
                     (''YSO_CLASS'', (case source_dict ''YSO_CLASS'' of None \<Rightarrow> VStr [] | Some v \<Rightarrow> v)),
                     (''W2magMean'', (case source_dict ''W2magMean'' of None \<Rightarrow> VFloat NaN | Some v \<Rightarrow> v)),
                     (''r_mean'', VFloat (case brightness of None \<Rightarrow> NaN | Some b \<Rightarrow> r_mean b)),
                     (''r_priority'', VStr (case brightness of None \<Rightarrow> ''UNKNOWN'' | Some b \<Rightarrow> priority b)),
                     (''fading_mag_per_year'', VFloat (case fading of None \<Rightarrow> NaN | Some f \<Rightarrow> mag_change_1yr f)),
                     (''is_fading'', VBool (case fading of None \<Rightarrow> False | Some f \<Rightarrow> is_fading f)),
                     (''fading_status'', VStr (case fading of None \<Rightarrow> ''UNKNOWN'' | Some f \<Rightarrow> status f)),
                     (''color_change_1yr'', VFloat (case color_evol of None \<Rightarrow> NaN | Some c \<Rightarrow> color_change_1yr c)),
                     (''is_reddening_bluing'', VBool (case color_evol of None \<Rightarrow> False | Some c \<Rightarrow> is_significant_evolution c)),
                     (''color_status'', VStr (case color_evol of None \<Rightarrow> ''UNKNOWN'' | Some c \<Rightarrow> color_status c)),
                     (''baseline_days'', VFloat (case color_evol of None \<Rightarrow> NaN | Some c \<Rightarrow> Fin (baseline_days c)))]),
                   st')))))))))"

section \<open>Notions of the specification\<close>

text \<open>The mean magnitude of a band, and the tiers of the specification (section 4.2).\<close>

definition band_mean :: "real list \<Rightarrow> real" where
  "band_mean xs = sum_list xs / real (length xs)"

definition priority_tier :: "real \<Rightarrow> string" where
  "priority_tier m =
     (if m < 15.5 then ''HIGH'' else if m < 16.5 then ''MEDIUM''
      else if m < 17 then ''LOW'' else ''TOO_FAINT'')"

text \<open>
  The least-squares line of the specification (sections 4.3 and 4.4): the sum of squared
  residuals of the line \<open>a * t + b\<close> over the samples, and a line that minimises it.
\<close>

definition ssr :: "real list \<Rightarrow> real list \<Rightarrow> real \<Rightarrow> real \<Rightarrow> real" where
  "ssr ts ys a b = sum_list (map2 (\<lambda>t y. (y - (a * t + b))\<^sup>2) ts ys)"

definition is_ols_line :: "real list \<Rightarrow> real list \<Rightarrow> real \<Rightarrow> real \<Rightarrow> bool" where
  "is_ols_line ts ys a b = (\<forall>a' b'. ssr ts ys a b \<le> ssr ts ys a' b')"

text \<open>
  The solution of the normal equations, for the proofs: the determinant
  \<open>n * \<Sum>t\<^sup>2 - (\<Sum>t)\<^sup>2\<close>, the slope and the intercept.
\<close>

definition ols_det :: "real list \<Rightarrow> real" where
  "ols_det ts = real (length ts) * sum_list (map (\<lambda>t. t * t) ts) - sum_list ts * sum_list ts"

definition lsq_slope :: "real list \<Rightarrow> real list \<Rightarrow> real" where
  "lsq_slope ts ys =
     (real (length ts) * sum_list (map2 (*) ts ys) - sum_list ts * sum_list ys) / ols_det ts"

definition lsq_intercept :: "real list \<Rightarrow> real list \<Rightarrow> real" where
  "lsq_intercept ts ys =
     (sum_list (map (\<lambda>t. t * t) ts) * sum_list ys - sum_list ts * sum_list (map2 (*) ts ys)) / ols_det ts"

text \<open>
  Magnitude strictly increasing, respectively decreasing, over time: of two samples, the
  later one is the fainter, respectively the brighter.
\<close>

definition rising :: "real list \<Rightarrow> real list \<Rightarrow> bool" where
  "rising ts ys = (\<forall>i < length ts. \<forall>j < length ts. ts ! i < ts ! j \<longrightarrow> ys ! i < ys ! j)"

definition falling :: "real list \<Rightarrow> real list \<Rightarrow> bool" where
  "falling ts ys = (\<forall>i < length ts. \<forall>j < length ts. ts ! i < ts ! j \<longrightarrow> ys ! j < ys ! i)"

text \<open>
  Scenario A of the specification (slope 0.001 per day), a series that rises by one
  thousandth of a magnitude every 100 days (slope 0.00001 per day), and the mirror image
  of scenario A (slope -0.001 per day).
\<close>

definition lc_scenario_a :: lightcurve where
  "lc_scenario_a = \<lparr> mags_g = [], mags_r = [14.0, 14.1, 14.2, 14.3, 14.4], times_g = [],
                      times_r = [0, 100, 200, 300, 400] \<rparr>"

definition lc_slow_rise :: lightcurve where
  "lc_slow_rise = \<lparr> mags_g = [], mags_r = [14.000, 14.001, 14.002, 14.003, 14.004], times_g = [],
                      times_r = [0, 100, 200, 300, 400] \<rparr>"

definition lc_steady_brightening :: lightcurve where
  "lc_steady_brightening = \<lparr> mags_g = [], mags_r = [14.4, 14.3, 14.2, 14.1, 14.0], times_g = [],
                              times_r = [0, 100, 200, 300, 400] \<rparr>"

text \<open>
  The window of the specification (section 4.4): the intersection of the two bands' time
  spans, the common grid over it, and the two interpolated series and their difference
  as \<open>analyze_color_evolution\<close> computes them.
\<close>

definition overlap_start :: "lightcurve \<Rightarrow> real" where
  "overlap_start lc = max (Min (set (times_g lc))) (Min (set (times_r lc)))"

definition overlap_end :: "lightcurve \<Rightarrow> real" where
  "overlap_end lc = min (Max (set (times_g lc))) (Max (set (times_r lc)))"

definition common_grid :: "lightcurve \<Rightarrow> real list" where
  "common_grid lc =
     linspace (overlap_start lc) (overlap_end lc) (min (length (mags_g lc)) (length (mags_r lc)))"

definition g_on_grid :: "lightcurve \<Rightarrow> pyfloat list" where
  "g_on_grid lc = map (call_linear (sort_key fst (zip (times_g lc) (mags_g lc)))) (common_grid lc)"

definition r_on_grid :: "lightcurve \<Rightarrow> pyfloat list" where
  "r_on_grid lc = map (call_linear (sort_key fst (zip (times_r lc) (mags_r lc)))) (common_grid lc)"

definition color_series :: "lightcurve \<Rightarrow> pyfloat list" where
  "color_series lc = map2 fsub (g_on_grid lc) (r_on_grid lc)"

text \<open>
  Light curves for the examples: scenario B of the specification (two constant bands over
  400 days); a g band of two samples; two bands that overlap for 50 days.
\<close>

definition lc_scenario_b :: lightcurve where
  "lc_scenario_b = \<lparr> mags_g = [15, 15, 15, 15, 15], mags_r = [14, 14, 14, 14, 14],
                      times_g = [0, 100, 200, 300, 400], times_r = [0, 100, 200, 300, 400] \<rparr>"



text \<open>
  Five samples per band at times 1, 1001, 2001, 3001 and 4001; the g magnitudes rise by 0.1
  per 1000 days and the r magnitudes are constant, so the color rises by 0.0001 per day.
\<close>

definition lc_color_boundary :: lightcurve where
  "lc_color_boundary = \<lparr> mags_g = [2.0, 2.1, 2.2, 2.3, 2.4], mags_r = [1, 1, 1, 1, 1],
                          times_g = [1, 1001, 2001, 3001, 4001], times_r = [1, 1001, 2001, 3001, 4001] \<rparr>"

text \<open>
  Linear interpolation as the specification means it: the value at \<open>x\<close> lies on the
  segment between two neighbouring samples (no sample time strictly between theirs) whose
  times enclose \<open>x\<close>.
\<close>

definition lin_interp :: "real list \<Rightarrow> real list \<Rightarrow> real \<Rightarrow> real \<Rightarrow> bool" where
  "lin_interp ts ys x v =
     (\<exists>i < length ts. \<exists>j < length ts.
        ts ! i < ts ! j \<and> ts ! i \<le> x \<and> x \<le> ts ! j
        \<and> (\<forall>k < length ts. \<not> (ts ! i < ts ! k \<and> ts ! k < ts ! j))
        \<and> v = ys ! i + (ys ! j - ys ! i) / (ts ! j - ts ! i) * (x - ts ! i))"

text \<open>
  Two bands of different cadence: four g samples rising by 0.002 per day, three constant
  r samples; the window is 50 to 250.
\<close>

definition lc_mixed_cadence :: lightcurve where
  "lc_mixed_cadence = \<lparr> mags_g = [15.0, 15.2, 15.4, 15.6], mags_r = [14, 14, 14],
                         times_g = [0, 100, 200, 300], times_r = [50, 150, 250] \<rparr>"

text \<open>
  No live network access: the \<^verbatim>\<open>requests\<close> library is missing, or the request raised
  (connection error or timeout).
\<close>

definition no_live_network :: "'s environment \<Rightarrow> http_outcome \<Rightarrow> bool" where
  "no_live_network env outcome = (\<not> has_requests env \<or> outcome = RequestRaised)"

text \<open>A toy generator for the examples: the state is a counter.\<close>

definition env_offline :: "nat environment" where
  "env_offline = \<lparr> has_requests = False, py_hash = (\<lambda>v. 7), rng_seed = (\<lambda>n. n),
                    rng_below = (\<lambda>k s. (s, Suc s)), rng_sample = (\<lambda>s. (real (s mod 10) / 10, Suc s)),
                    rng_gauss = (\<lambda>s. (0, Suc s)) \<rparr>"

text \<open>The keys of the output row, in the order of the dictionary literal.\<close>

definition row_keys :: "string list" where
  "row_keys = [''Objname'', ''RAdeg'', ''DEdeg'', ''YSO_CLASS'', ''W2magMean'', ''r_mean'',
               ''r_priority'', ''fading_mag_per_year'', ''is_fading'', ''fading_status'',
               ''color_change_1yr'', ''is_reddening_bluing'', ''color_status'', ''baseline_days'']"

text \<open>
  A catalog row, a reachable service, an answer with three r-band observations, and an
  answer whose only observation is in another band.
\<close>

definition source_example :: "string \<rightharpoonup> pyvalue" where
  "source_example = [''Objname'' \<mapsto> VStr ''YSO_1'', ''RAdeg'' \<mapsto> VFloat (Fin 83.8),
                     ''DEdeg'' \<mapsto> VFloat (Fin (- 5.4)), ''YSO_CLASS'' \<mapsto> VStr ''ClassII'']"

definition env_online :: "nat environment" where
  "env_online = env_offline\<lparr> has_requests := True \<rparr>"

definition answer_three_r :: http_outcome where
  "answer_three_r = Response 200 (Some
     [\<lparr> filtercode = Some ''R'', mag = Some 15.0, mjd = Some 58000 \<rparr>,
      \<lparr> filtercode = Some ''r'', mag = Some 15.2, mjd = Some 58100 \<rparr>,
      \<lparr> filtercode = Some ''r'', mag = Some 15.4, mjd = Some 58200 \<rparr>])"

definition answer_other_band :: http_outcome where
  "answer_other_band = Response 200 (Some [\<lparr> filtercode = Some ''i'', mag = Some 15.0, mjd = Some 58000 \<rparr>])"

text \<open>
  A g band whose first timestamp is repeated.
\<close>

definition lc_repeated_first :: lightcurve where
  "lc_repeated_first = \<lparr> mags_g = [15, 16, 17], mags_r = [14, 14, 14],
                          times_g = [0, 0, 200], times_r = [0, 100, 200] \<rparr>"

text \<open>Five r-band samples that all carry the timestamp 0.\<close>

definition lc_all_at_zero :: lightcurve where
  "lc_all_at_zero = \<lparr> mags_g = [], mags_r = [14.0, 14.1, 14.2, 14.3, 14.4], times_g = [],
                       times_r = [0, 0, 0, 0, 0] \<rparr>"


text \<open>An answer of the service with five r-band observations, all at the date 0.\<close>

definition answer_five_at_zero :: http_outcome where
  "answer_five_at_zero = Response 200 (Some
     [\<lparr> filtercode = Some ''r'', mag = Some 14.0, mjd = Some 0 \<rparr>,
      \<lparr> filtercode = Some ''r'', mag = Some 14.1, mjd = Some 0 \<rparr>,
      \<lparr> filtercode = Some ''r'', mag = Some 14.2, mjd = Some 0 \<rparr>,
      \<lparr> filtercode = Some ''r'', mag = Some 14.3, mjd = Some 0 \<rparr>,
      \<lparr> filtercode = Some ''r'', mag = Some 14.4, mjd = Some 0 \<rparr>])"

section \<open>Brightness analyzer on arrays of doubles\<close>

text \<open>
  The light-curve dictionary as \<^verbatim>\<open>analyze_brightness\<close> receives it from any caller:
  its four lists hold doubles, special values included (the decoder of the service's JSON
  answer accepts \<^verbatim>\<open>NaN\<close> and \<^verbatim>\<open>Infinity\<close>, and \<^verbatim>\<open>_parse_ztf_response\<close> only drops
  \<^verbatim>\<open>None\<close>).
\<close>

record lc_dict =
  key_g :: "pyfloat list"
  key_r :: "pyfloat list"
  key_times_g :: "pyfloat list"
  key_times_r :: "pyfloat list"

text \<open>A light curve of finite samples, as a dictionary of doubles.\<close>

definition lc_dict_of :: "lightcurve \<Rightarrow> lc_dict" where
  "lc_dict_of lc = \<lparr> key_g = map Fin (mags_g lc), key_r = map Fin (mags_r lc),
                      key_times_g = map Fin (times_g lc), key_times_r = map Fin (times_r lc) \<rparr>"

text \<open>
  \<^verbatim>\<open>np.min\<close> on doubles: not-a-number as soon as one element is, the least element
  otherwise; ValueError on an empty array.
\<close>

definition fmin :: "pyfloat \<Rightarrow> pyfloat \<Rightarrow> pyfloat" where
  "fmin a b = (if isnan a \<or> isnan b then NaN else if flt b a then b else a)"

fun np_min_f :: "pyfloat list \<Rightarrow> py_error + pyfloat" where
  "np_min_f [] = Inl ValueError"
| "np_min_f (x # xs) = Inr (fold (\<lambda>y acc. fmin acc y) xs x)"

fun fsqrt :: "pyfloat \<Rightarrow> pyfloat" where
  "fsqrt (Fin x) = (if x < 0 then NaN else Fin (sqrt x))"
| "fsqrt PInf = PInf"
| "fsqrt NInf = NaN"
| "fsqrt NaN = NaN"

text \<open>
  \<^verbatim>\<open>np.std\<close> on doubles: the square root of the mean of the squared deviations from the
  mean.
\<close>

definition np_std_f :: "pyfloat list \<Rightarrow> pyfloat" where
  "np_std_f xs =
     (let m = np_mean_f xs
      in fsqrt (np_mean_f (map (\<lambda>x. fmul (fsub x m) (fsub x m)) xs)))"

text \<open>\<^verbatim>\<open>analyze_brightness\<close> (lines 154 to 193) on a dictionary of doubles.\<close>

definition analyze_brightness_f :: "lc_dict option \<Rightarrow> py_error + brightness_result option" where
  "analyze_brightness_f d =
     (case d of
        None \<Rightarrow> Inr None
      | Some lc \<Rightarrow>
          (case (if length (key_r lc) > 0
                 then (case np_min_f (key_r lc) of
                         Inl e \<Rightarrow> Inl e
                       | Inr mn \<Rightarrow> Inr (np_mean_f (key_r lc), mn, np_std_f (key_r lc)))
                 else Inr (NaN, NaN, NaN)) of
             Inl e \<Rightarrow> Inl e
           | Inr (rmean, rmin, rstd) \<Rightarrow>
               (case (if length (key_g lc) > 0
                      then (case np_min_f (key_g lc) of
                              Inl e \<Rightarrow> Inl e
                            | Inr mn \<Rightarrow> Inr (np_mean_f (key_g lc), mn))
                      else Inr (NaN, NaN)) of
                  Inl e \<Rightarrow> Inl e
                | Inr (gmean, gmin) \<Rightarrow>
                    Inr (Some \<lparr> r_mean = rmean, r_min = rmin, r_std = rstd,
                                g_mean = gmean, g_min = gmin,
                                priority = priority_of rmean \<rparr>))))"

text \<open>An r band of three samples, one of them not-a-number.\<close>

definition lc_nan_sample :: lc_dict where
  "lc_nan_sample = \<lparr> key_g = [], key_r = [Fin 15, NaN, Fin 16], key_times_g = [],
                      key_times_r = [Fin 58000, Fin 58001, Fin 58002] \<rparr>"

text \<open>The toy environment in another process: Python's \<^verbatim>\<open>hash\<close> has another salt.\<close>

definition env_other_process :: "nat environment" where
  "env_other_process = env_offline \<lparr> py_hash := (\<lambda>v. 8) \<rparr>"

section \<open>Properties of the brightness analyzer\<close>

lemma np_min_nonempty: "xs \<noteq> [] \<Longrightarrow> \<exists>m. np_min xs = Inr m"
  by (cases xs) simp_all

lemma analyze_brightness_nonempty:
  assumes "mags_r lc \<noteq> []"
  shows "\<exists>b. analyze_brightness (Some lc) = Inr (Some b)
           \<and> r_mean b = np_mean (mags_r lc) \<and> priority b = priority_of (np_mean (mags_r lc))"
proof -
  obtain mn where mn: "np_min (mags_r lc) = Inr mn"
    using np_min_nonempty [OF assms] by blast
  show ?thesis
  proof (cases "mags_g lc = []")
    case True
    then show ?thesis using assms mn by (simp add: analyze_brightness_def)
  next
    case False
    then obtain mg where "np_min (mags_g lc) = Inr mg"
      using np_min_nonempty by blast
    then show ?thesis using assms mn False by (simp add: analyze_brightness_def)
  qed
qed

lemma np_mean_nonempty: "xs \<noteq> [] \<Longrightarrow> np_mean xs = Fin (band_mean xs)"
  by (simp add: np_mean_def band_mean_def)

text \<open>
  Claim C3. For every light curve whose r band is non-empty, \<open>analyze_brightness\<close>
  returns a result whose priority follows the r-band mean magnitude \<open>m\<close>:
  \<open>m < 15.5\<close> gives HIGH, \<open>15.5 \<le> m < 16.5\<close> gives MEDIUM, \<open>16.5 \<le> m < 17.0\<close> gives LOW,
  \<open>17.0 \<le> m\<close> gives TOO_FAINT; the upper bound of each tier is exclusive, so \<open>m = 15.5\<close>
  is MEDIUM and not HIGH, and \<open>m = 17.0\<close> is TOO_FAINT and not LOW.
\<close>

theorem priority_by_thresholds:
  assumes "mags_r lc \<noteq> []"
  shows "\<exists>b. analyze_brightness (Some lc) = Inr (Some b)
           \<and> (band_mean (mags_r lc) < 15.5 \<longrightarrow> priority b = ''HIGH'')
           \<and> (15.5 \<le> band_mean (mags_r lc) \<and> band_mean (mags_r lc) < 16.5 \<longrightarrow> priority b = ''MEDIUM'')
           \<and> (16.5 \<le> band_mean (mags_r lc) \<and> band_mean (mags_r lc) < 17 \<longrightarrow> priority b = ''LOW'')
           \<and> (17 \<le> band_mean (mags_r lc) \<longrightarrow> priority b = ''TOO_FAINT'')
           \<and> (band_mean (mags_r lc) = 15.5 \<longrightarrow> priority b = ''MEDIUM'' \<and> priority b \<noteq> ''HIGH'')
           \<and> (band_mean (mags_r lc) = 17 \<longrightarrow> priority b = ''TOO_FAINT'' \<and> priority b \<noteq> ''LOW'')"
proof -
  obtain b where b: "analyze_brightness (Some lc) = Inr (Some b)"
    and p: "priority b = priority_of (np_mean (mags_r lc))"
    using analyze_brightness_nonempty [OF assms] by blast
  have m: "np_mean (mags_r lc) = Fin (band_mean (mags_r lc))"
    using assms by (rule np_mean_nonempty)
  show ?thesis
    using b p m by (simp add: priority_of_def)
qed

text \<open>
  The two boundaries: an r band of mean exactly 15.5 is MEDIUM, one of mean exactly 17.0
  is TOO_FAINT; and a mean of 14.05, HIGH, and one of 16.7, LOW.
\<close>

theorem priority_by_thresholds_witness:
  "mags_r \<lparr> mags_g = [], mags_r = [15, 16], times_g = [], times_r = [58000, 58001] \<rparr> \<noteq> []
   \<and> (\<exists>b. analyze_brightness (Some \<lparr> mags_g = [], mags_r = [15, 16], times_g = [], times_r = [58000, 58001] \<rparr>) = Inr (Some b)
          \<and> priority b = ''MEDIUM'')
   \<and> (\<exists>b. analyze_brightness (Some \<lparr> mags_g = [], mags_r = [17, 17], times_g = [], times_r = [58000, 58001] \<rparr>) = Inr (Some b)
          \<and> priority b = ''TOO_FAINT'')
   \<and> (\<exists>b. analyze_brightness (Some \<lparr> mags_g = [], mags_r = [14.2, 13.9], times_g = [], times_r = [58000, 58001] \<rparr>) = Inr (Some b)
          \<and> priority b = ''HIGH'')
   \<and> (\<exists>b. analyze_brightness (Some \<lparr> mags_g = [], mags_r = [16.5, 16.9], times_g = [], times_r = [58000, 58001] \<rparr>) = Inr (Some b)
          \<and> priority b = ''LOW'')"
  using priority_by_thresholds [of "\<lparr> mags_g = [], mags_r = [15, 16], times_g = [], times_r = [58000, 58001] \<rparr>"]
        priority_by_thresholds [of "\<lparr> mags_g = [], mags_r = [17, 17], times_g = [], times_r = [58000, 58001] \<rparr>"]
        priority_by_thresholds [of "\<lparr> mags_g = [], mags_r = [14.2, 13.9], times_g = [], times_r = [58000, 58001] \<rparr>"]
        priority_by_thresholds [of "\<lparr> mags_g = [], mags_r = [16.5, 16.9], times_g = [], times_r = [58000, 58001] \<rparr>"]
  by (auto simp add: band_mean_def)

section \<open>Properties of the least-squares line\<close>

lemma ssr_expand:
  "length ts = length ys \<Longrightarrow>
   ssr ts ys a b =
     sum_list (map (\<lambda>y. y * y) ys) - 2 * a * sum_list (map2 (*) ts ys) - 2 * b * sum_list ys
     + a * a * sum_list (map (\<lambda>t. t * t) ts) + 2 * a * b * sum_list ts + real (length ts) * (b * b)"
  unfolding ssr_def
  by (induction ts ys rule: list_induct2) (simp_all add: algebra_simps power2_eq_square)

lemma sq_line_expand:
  "sum_list (map (\<lambda>t. (u * t + v)\<^sup>2) ts) =
     u * u * sum_list (map (\<lambda>t. t * t) ts) + 2 * u * v * sum_list ts + real (length ts) * (v * v)"
  by (induction ts) (simp_all add: algebra_simps power2_eq_square)

lemma normal_equations_minimal:
  assumes len: "length ts = length ys"
    and n1: "a * sum_list (map (\<lambda>t. t * t) ts) + b * sum_list ts = sum_list (map2 (*) ts ys)"
    and n2: "a * sum_list ts + real (length ts) * b = sum_list ys"
  shows "ssr ts ys a' b' - ssr ts ys a b = sum_list (map (\<lambda>t. ((a' - a) * t + (b' - b))\<^sup>2) ts)"
  unfolding ssr_expand [OF len] sq_line_expand n1 [symmetric] n2 [symmetric]
  by (simp add: algebra_simps)

lemma normal_equations_ols:
  assumes len: "length ts = length ys"
    and n1: "a * sum_list (map (\<lambda>t. t * t) ts) + b * sum_list ts = sum_list (map2 (*) ts ys)"
    and n2: "a * sum_list ts + real (length ts) * b = sum_list ys"
  shows "is_ols_line ts ys a b"
proof -
  have "ssr ts ys a b \<le> ssr ts ys a' b'" for a' b'
  proof -
    have "0 \<le> sum_list (map (\<lambda>t. ((a' - a) * t + (b' - b))\<^sup>2) ts)"
      by (rule sum_list_nonneg) auto
    then show ?thesis
      using normal_equations_minimal [OF len n1 n2, of a' b'] by linarith
  qed
  then show ?thesis by (simp add: is_ols_line_def)
qed

lemma ols_det_sum:
  "real (length ts) * ols_det ts = sum_list (map (\<lambda>t. (real (length ts) * t + (- sum_list ts))\<^sup>2) ts)"
  unfolding sq_line_expand ols_det_def by (simp add: algebra_simps)

lemma ols_det_nonneg: "0 \<le> ols_det ts"
proof (cases "ts = []")
  case True
  then show ?thesis by (simp add: ols_det_def)
next
  case False
  then have n: "0 < real (length ts)" by simp
  have "0 \<le> real (length ts) * ols_det ts"
    unfolding ols_det_sum by (rule sum_list_nonneg) auto
  with n show ?thesis by (simp add: zero_le_mult_iff)
qed

lemma ols_det_pos:
  assumes "t \<in> set ts" "t' \<in> set ts" "t \<noteq> t'"
  shows "0 < ols_det ts"
proof (rule ccontr)
  assume "\<not> 0 < ols_det ts"
  with ols_det_nonneg [of ts] have z: "ols_det ts = 0" by linarith
  have n: "0 < real (length ts)" using assms(1) by (cases ts) auto
  have "sum_list (map (\<lambda>t. (real (length ts) * t + (- sum_list ts))\<^sup>2) ts) = 0"
    using ols_det_sum [of ts] z by simp
  then have all: "\<forall>x \<in> set ts. (real (length ts) * x + (- sum_list ts))\<^sup>2 = 0"
    by (subst (asm) sum_list_nonneg_eq_0_iff) auto
  from all assms(1) have "real (length ts) * t = sum_list ts" by auto
  moreover from all assms(2) have "real (length ts) * t' = sum_list ts" by auto
  ultimately have "real (length ts) * t = real (length ts) * t'" by simp
  with n have "t = t'" by simp
  with assms(3) show False by contradiction
qed

lemma closed_form_normal_equations:
  fixes n sx sxx sy sxy :: real
  assumes d: "n * sxx - sx * sx \<noteq> 0"
  defines "a \<equiv> (n * sxy - sx * sy) / (n * sxx - sx * sx)"
    and "b \<equiv> (sxx * sy - sx * sxy) / (n * sxx - sx * sx)"
  shows "a * sxx + b * sx = sxy" and "a * sx + n * b = sy"
proof -
  let ?d = "n * sxx - sx * sx"
  have ad: "a * ?d = n * sxy - sx * sy" using d by (simp add: a_def)
  have bd: "b * ?d = sxx * sy - sx * sxy" using d by (simp add: b_def)
  have "(a * sxx + b * sx) * ?d = (a * ?d) * sxx + (b * ?d) * sx"
    by (simp only: algebra_simps)
  also have "\<dots> = sxy * ?d"
    unfolding ad bd by (simp add: algebra_simps)
  finally show "a * sxx + b * sx = sxy" using d by simp
  have "(a * sx + n * b) * ?d = (a * ?d) * sx + n * (b * ?d)"
    by (simp only: algebra_simps)
  also have "\<dots> = sy * ?d"
    unfolding ad bd by (simp add: algebra_simps)
  finally show "a * sx + n * b = sy" using d by simp
qed

lemma ols_line_unique_slope:
  assumes len: "length ts = length ys"
    and two: "t \<in> set ts" "t' \<in> set ts" "t \<noteq> t'"
    and m1: "is_ols_line ts ys a b" and m2: "is_ols_line ts ys a' b'"
    and n1: "a * sum_list (map (\<lambda>t. t * t) ts) + b * sum_list ts = sum_list (map2 (*) ts ys)"
    and n2: "a * sum_list ts + real (length ts) * b = sum_list ys"
  shows "a' = a"
proof -
  have "ssr ts ys a' b' = ssr ts ys a b"
    using m1 m2 unfolding is_ols_line_def by (meson order_antisym)
  then have "sum_list (map (\<lambda>t. ((a' - a) * t + (b' - b))\<^sup>2) ts) = 0"
    using normal_equations_minimal [OF len n1 n2, of a' b'] by simp
  then have all: "\<forall>x \<in> set ts. ((a' - a) * x + (b' - b))\<^sup>2 = 0"
    by (subst (asm) sum_list_nonneg_eq_0_iff) auto
  from all two(1) have "(a' - a) * t + (b' - b) = 0" by auto
  moreover from all two(2) have "(a' - a) * t' + (b' - b) = 0" by auto
  ultimately have "(a' - a) * (t - t') = 0" by (simp add: algebra_simps)
  with two(3) show ?thesis by simp
qed

lemma polyfit_full_rank:
  assumes len: "length ts = length ys" and two: "t \<in> set ts" "t' \<in> set ts" "t \<noteq> t'"
  shows "polyfit ts (map Fin ys) =
           Inr (Fin ((real (length ts) * sum_list (map2 (*) ts ys) - sum_list ts * sum_list ys) / ols_det ts),
                Fin ((sum_list (map (\<lambda>t. t * t) ts) * sum_list ys - sum_list ts * sum_list (map2 (*) ts ys)) / ols_det ts))"
proof -
  have ne: "ts \<noteq> []" using two(1) by auto
  have d: "ols_det ts \<noteq> 0" using ols_det_pos [OF two] by simp
  have fin: "list_all isfinite (map Fin ys)" by (simp add: list_all_iff)
  have unfin: "map the_fin (map Fin ys) = ys" by (simp add: comp_def)
  show ?thesis
    using ne len d fin unfin unfolding polyfit_def ols_det_def Let_def by simp
qed

lemma lsq_is_ols:
  assumes len: "length ts = length ys" and two: "t \<in> set ts" "t' \<in> set ts" "t \<noteq> t'"
  shows "is_ols_line ts ys (lsq_slope ts ys) (lsq_intercept ts ys)"
    and "is_ols_line ts ys a' b' \<Longrightarrow> a' = lsq_slope ts ys"
proof -
  have d: "real (length ts) * sum_list (map (\<lambda>t. t * t) ts) - sum_list ts * sum_list ts \<noteq> 0"
    using ols_det_pos [OF two] by (simp add: ols_det_def)
  note ne = closed_form_normal_equations [OF d, of "sum_list (map2 (*) ts ys)" "sum_list ys",
      folded ols_det_def, folded lsq_slope_def lsq_intercept_def]
  show ols: "is_ols_line ts ys (lsq_slope ts ys) (lsq_intercept ts ys)"
    by (rule normal_equations_ols [OF len ne])
  show "a' = lsq_slope ts ys" if "is_ols_line ts ys a' b'"
    by (rule ols_line_unique_slope [OF len two ols that ne])
qed

lemma sums_on_line:
  "sum_list (map2 (*) ts (map (\<lambda>t. a * t + b) ts)) = a * sum_list (map (\<lambda>t. t * t) ts) + b * sum_list ts"
  "sum_list (map (\<lambda>t. a * t + b) ts) = a * sum_list ts + real (length ts) * b"
  by (induction ts) (simp_all add: algebra_simps)

lemma lsq_slope_on_line:
  assumes two: "t \<in> set ts" "t' \<in> set ts" "t \<noteq> t'"
  shows "lsq_slope ts (map (\<lambda>t. a * t + b) ts) = a"
proof -
  have d: "ols_det ts \<noteq> 0" using ols_det_pos [OF two] by simp
  have "real (length ts) * sum_list (map2 (*) ts (map (\<lambda>t. a * t + b) ts))
          - sum_list ts * sum_list (map (\<lambda>t. a * t + b) ts) = a * ols_det ts"
    unfolding sums_on_line ols_det_def by (simp add: algebra_simps)
  then show ?thesis using d by (simp add: lsq_slope_def)
qed

lemma analyze_fading_few: "length (mags_r lc) < 5 \<Longrightarrow> analyze_fading (Some lc) nm = Inr None"
  by (simp add: analyze_fading_def)

lemma analyze_fading_fit:
  assumes n5: "5 \<le> length (mags_r lc)" and len: "length (times_r lc) = length (mags_r lc)"
    and two: "t \<in> set (times_r lc)" "t' \<in> set (times_r lc)" "t \<noteq> t'"
  shows "analyze_fading (Some lc) nm =
           Inr (Some \<lparr> slope_mag_per_day = Fin (lsq_slope (times_r lc) (mags_r lc)),
                        mag_change_1yr = Fin (lsq_slope (times_r lc) (mags_r lc) * 365),
                        is_fading = (0.2 < lsq_slope (times_r lc) (mags_r lc) * 365),
                        status = fading_status (Fin (lsq_slope (times_r lc) (mags_r lc))),
                        n_observations = length (mags_r lc) \<rparr>)"
  using n5 polyfit_full_rank [OF len two]
  by (simp add: analyze_fading_def lsq_slope_def fgt_def)

section \<open>Properties of the fading analyzer\<close>

text \<open>
  Claim C1, as amended. On light curves of finite samples, \<open>analyze_fading\<close> returns
  no result for every light curve with fewer than 5 r-band samples. For every light curve
  with at least 5 r-band samples, one timestamp per magnitude and at least two different
  timestamps among them, it returns a result whose slope is the slope of the least-squares line of
  r magnitude against time, and that slope is the only one a least-squares line can have;
  \<open>mag_change_1yr\<close> is the slope times 365, and \<open>is_fading\<close> is true exactly when
  \<open>mag_change_1yr > 0.2\<close>. Five samples that lie on a line of slope 0.001 per day give
  \<open>mag_change_1yr = 0.365\<close> and \<open>is_fading = True\<close>.
\<close>

theorem fading_slope_is_ols:
  "(length (mags_r lc) < 5 \<longrightarrow> analyze_fading (Some lc) nm = Inr None)
   \<and> (5 \<le> length (mags_r lc) \<and> length (times_r lc) = length (mags_r lc)
        \<and> (\<exists>t \<in> set (times_r lc). \<exists>t' \<in> set (times_r lc). t \<noteq> t') \<longrightarrow>
      (\<exists>res s c. analyze_fading (Some lc) nm = Inr (Some res)
          \<and> slope_mag_per_day res = Fin s
          \<and> is_ols_line (times_r lc) (mags_r lc) s c
          \<and> (\<forall>s' c'. is_ols_line (times_r lc) (mags_r lc) s' c' \<longrightarrow> s' = s)
          \<and> mag_change_1yr res = Fin (s * 365)
          \<and> is_fading res = fgt (mag_change_1yr res) (Fin 0.2)
          \<and> (is_fading res \<longleftrightarrow> 0.2 < s * 365)))
   \<and> (length (mags_r lc) = 5 \<and> length (times_r lc) = 5
        \<and> (\<exists>t \<in> set (times_r lc). \<exists>t' \<in> set (times_r lc). t \<noteq> t')
        \<and> (\<exists>c. mags_r lc = map (\<lambda>t. 0.001 * t + c) (times_r lc)) \<longrightarrow>
      (\<exists>res. analyze_fading (Some lc) nm = Inr (Some res)
          \<and> mag_change_1yr res = Fin 0.365 \<and> is_fading res = True))"
proof (intro conjI impI)
  assume "length (mags_r lc) < 5"
  then show "analyze_fading (Some lc) nm = Inr None" by (rule analyze_fading_few)
next
  assume h: "5 \<le> length (mags_r lc) \<and> length (times_r lc) = length (mags_r lc)
        \<and> (\<exists>t \<in> set (times_r lc). \<exists>t' \<in> set (times_r lc). t \<noteq> t')"
  then obtain t t' where two: "t \<in> set (times_r lc)" "t' \<in> set (times_r lc)" "t \<noteq> t'" by blast
  from h have n5: "5 \<le> length (mags_r lc)" and len: "length (times_r lc) = length (mags_r lc)" by simp_all
  let ?s = "lsq_slope (times_r lc) (mags_r lc)"
  note fit = analyze_fading_fit [OF n5 len two, of nm]
  note ols = lsq_is_ols [OF len two]
  show "\<exists>res s c. analyze_fading (Some lc) nm = Inr (Some res)
          \<and> slope_mag_per_day res = Fin s
          \<and> is_ols_line (times_r lc) (mags_r lc) s c
          \<and> (\<forall>s' c'. is_ols_line (times_r lc) (mags_r lc) s' c' \<longrightarrow> s' = s)
          \<and> mag_change_1yr res = Fin (s * 365)
          \<and> is_fading res = fgt (mag_change_1yr res) (Fin 0.2)
          \<and> (is_fading res \<longleftrightarrow> 0.2 < s * 365)"
    apply (rule exI, rule exI [of _ ?s], rule exI [of _ "lsq_intercept (times_r lc) (mags_r lc)"])
    apply (intro conjI)
          apply (rule fit)
         apply simp
        apply (rule ols(1))
       apply (blast intro: ols(2))
      apply simp
     apply (simp add: fgt_def)
    apply simp
    done
next
  assume h: "length (mags_r lc) = 5 \<and> length (times_r lc) = 5
        \<and> (\<exists>t \<in> set (times_r lc). \<exists>t' \<in> set (times_r lc). t \<noteq> t')
        \<and> (\<exists>c. mags_r lc = map (\<lambda>t. 0.001 * t + c) (times_r lc))"
  then obtain t t' c where two: "t \<in> set (times_r lc)" "t' \<in> set (times_r lc)" "t \<noteq> t'"
    and line: "mags_r lc = map (\<lambda>t. 0.001 * t + c) (times_r lc)" by blast
  from h have n5: "5 \<le> length (mags_r lc)" and len: "length (times_r lc) = length (mags_r lc)" by simp_all
  have s: "lsq_slope (times_r lc) (mags_r lc) = 0.001"
    unfolding line by (rule lsq_slope_on_line [OF two])
  show "\<exists>res. analyze_fading (Some lc) nm = Inr (Some res)
          \<and> mag_change_1yr res = Fin 0.365 \<and> is_fading res = True"
    unfolding analyze_fading_fit [OF n5 len two, of nm] s by simp
qed

text \<open>Four samples give no result; scenario A of the specification gives 0.365.\<close>

theorem fading_slope_is_ols_witness:
  "analyze_fading (Some \<lparr> mags_g = [], mags_r = [14.0, 14.1, 14.2, 14.3], times_g = [], times_r = [0, 100, 200, 300] \<rparr>) ()
     = Inr None
   \<and> (\<exists>res. analyze_fading (Some \<lparr> mags_g = [], mags_r = [14.0, 14.1, 14.2, 14.3, 14.4], times_g = [],
                                      times_r = [0, 100, 200, 300, 400] \<rparr>) () = Inr (Some res)
          \<and> mag_change_1yr res = Fin 0.365 \<and> is_fading res = True)"
proof -
  have line: "\<exists>c::real. [14.0, 14.1, 14.2, 14.3, 14.4] = map (\<lambda>t. 0.001 * t + c) [0, 100, 200, 300, 400]"
    by (rule exI [of _ 14]) simp
  show ?thesis
    using line
      fading_slope_is_ols [of "\<lparr> mags_g = [], mags_r = [14.0, 14.1, 14.2, 14.3], times_g = [], times_r = [0, 100, 200, 300] \<rparr>" "()"]
      fading_slope_is_ols [of "\<lparr> mags_g = [], mags_r = [14.0, 14.1, 14.2, 14.3, 14.4], times_g = [],
                                      times_r = [0, 100, 200, 300, 400] \<rparr>" "()"]
    by auto
qed

section \<open>Sign of the slope\<close>

lemma sum_list_nth_sum: "sum_list (xs :: real list) = (\<Sum>i<length xs. xs ! i)"
  by (simp add: sum_list_sum_nth atLeast0LessThan)

lemma sum_list_map2_nth:
  "length ts = length ys \<Longrightarrow> sum_list (map2 (*) ts ys) = (\<Sum>i<length ts. ts ! i * ys ! (i::nat) :: real)"
  by (simp add: sum_list_sum_nth atLeast0LessThan)

lemma sum_bilinear_inner:
  fixes t y :: "nat \<Rightarrow> real"
  shows "(\<Sum>j<n. c - a * y j - t j * b + t j * y j)
           = real n * c - a * (\<Sum>j<n. y j) - (\<Sum>j<n. t j) * b + (\<Sum>j<n. t j * y j)"
  by (simp add: sum.distrib sum_subtractf sum_distrib_left sum_distrib_right)

lemma sum_bilinear_outer:
  fixes t y f :: "nat \<Rightarrow> real"
  shows "(\<Sum>i<n. real n * f i - t i * B - A * y i + C)
           = real n * (\<Sum>i<n. f i) - (\<Sum>i<n. t i) * B - A * (\<Sum>i<n. y i) + real n * C"
  by (simp add: sum.distrib sum_subtractf sum_distrib_left sum_distrib_right)

lemma double_sum_covariance:
  fixes t y :: "nat \<Rightarrow> real"
  shows "(\<Sum>i<n. \<Sum>j<n. (t i - t j) * (y i - y j))
           = 2 * (real n * (\<Sum>i<n. t i * y i) - (\<Sum>i<n. t i) * (\<Sum>i<n. y i))"
proof -
  have pw: "(t i - t j) * (y i - y j) = t i * y i - t i * y j - t j * y i + t j * y j" for i j
    by (simp add: algebra_simps)
  have "(\<Sum>i<n. \<Sum>j<n. (t i - t j) * (y i - y j))
          = (\<Sum>i<n. real n * (t i * y i) - t i * (\<Sum>j<n. y j) - (\<Sum>j<n. t j) * y i + (\<Sum>j<n. t j * y j))"
    by (simp only: pw sum_bilinear_inner)
  also have "\<dots> = real n * (\<Sum>i<n. t i * y i) - (\<Sum>i<n. t i) * (\<Sum>j<n. y j)
                     - (\<Sum>j<n. t j) * (\<Sum>i<n. y i) + real n * (\<Sum>j<n. t j * y j)"
    by (rule sum_bilinear_outer)
  finally show ?thesis by (simp add: algebra_simps)
qed

lemma covariance_pos:
  fixes t y :: "nat \<Rightarrow> real"
  assumes mono: "\<And>i j. i < n \<Longrightarrow> j < n \<Longrightarrow> t i < t j \<Longrightarrow> y i < y j"
    and two: "i0 < n" "j0 < n" "t i0 < t j0"
  shows "0 < real n * (\<Sum>i<n. t i * y i) - (\<Sum>i<n. t i) * (\<Sum>i<n. y i)"
proof -
  have nonneg: "0 \<le> (t i - t j) * (y i - y j)" if "i < n" "j < n" for i j
  proof -
    consider "t i < t j" | "t j < t i" | "t i = t j" by linarith
    then show ?thesis
    proof cases
      case 1
      then have "y i < y j" using mono that by blast
      with 1 show ?thesis by (simp add: mult_nonpos_nonpos)
    next
      case 2
      then have "y j < y i" using mono that by blast
      with 2 show ?thesis by simp
    next
      case 3
      then show ?thesis by simp
    qed
  qed
  have pos: "0 < (t i0 - t j0) * (y i0 - y j0)"
  proof -
    have "y i0 < y j0" using mono two by blast
    with two(3) show ?thesis by (simp add: mult_neg_neg)
  qed
  have inner: "0 < (\<Sum>j<n. (t i0 - t j) * (y i0 - y j))"
    by (rule sum_pos2 [of _ j0]) (use two pos nonneg in auto)
  have "0 < (\<Sum>i<n. \<Sum>j<n. (t i - t j) * (y i - y j))"
    by (rule sum_pos2 [of _ i0]) (use two inner nonneg in \<open>auto intro: sum_nonneg\<close>)
  then show ?thesis unfolding double_sum_covariance by simp
qed

lemma rising_slope_pos:
  assumes len: "length ts = length ys" and r: "rising ts ys"
    and two: "t \<in> set ts" "t' \<in> set ts" "t \<noteq> t'"
  shows "0 < lsq_slope ts ys"
proof -
  obtain i j where ij: "i < length ts" "j < length ts" "ts ! i = t" "ts ! j = t'"
    using two by (auto simp: in_set_conv_nth)
  have "\<exists>i0 j0. i0 < length ts \<and> j0 < length ts \<and> ts ! i0 < ts ! j0"
  proof (cases "t < t'")
    case True
    with ij show ?thesis by blast
  next
    case False
    with two(3) have "t' < t" by simp
    with ij show ?thesis by blast
  qed
  then obtain i0 j0 where *: "i0 < length ts" "j0 < length ts" "ts ! i0 < ts ! j0" by blast
  have "0 < real (length ts) * (\<Sum>i<length ts. ts ! i * ys ! i) - (\<Sum>i<length ts. ts ! i) * (\<Sum>i<length ts. ys ! i)"
    by (rule covariance_pos [OF _ *]) (use r in \<open>auto simp: rising_def\<close>)
  then have "0 < real (length ts) * sum_list (map2 (*) ts ys) - sum_list ts * sum_list ys"
    using len by (simp add: sum_list_map2_nth sum_list_nth_sum)
  then show ?thesis
    using ols_det_pos [OF two] by (simp add: lsq_slope_def)
qed

lemma lsq_slope_uminus:
  "lsq_slope ts (map uminus ys) = - lsq_slope ts ys"
proof -
  have a: "sum_list (map2 (*) ts (map uminus ys)) = - sum_list (map2 (*) ts ys)" for ts :: "real list"
  proof (induction ts arbitrary: ys)
    case Nil
    then show ?case by simp
  next
    case (Cons a ts)
    then show ?case by (cases ys) simp_all
  qed
  have b: "sum_list (map uminus ys) = - sum_list ys"
    by (induction ys) simp_all
  show ?thesis by (simp add: lsq_slope_def a b diff_divide_distrib)
qed

lemma falling_slope_neg:
  assumes len: "length ts = length ys" and f: "falling ts ys"
    and two: "t \<in> set ts" "t' \<in> set ts" "t \<noteq> t'"
  shows "lsq_slope ts ys < 0"
proof -
  have "rising ts (map uminus ys)"
    using f len by (simp add: rising_def falling_def)
  then have "0 < lsq_slope ts (map uminus ys)"
    using len two by (intro rising_slope_pos) simp_all
  then show ?thesis by (simp add: lsq_slope_uminus)
qed

section \<open>Status of the fading analyzer\<close>

lemma fading_status_cases:
  "(fading_status (Fin s) = ''STABLE'' \<longleftrightarrow> \<bar>s\<bar> < 0.0001)
   \<and> (0.0001 < s \<longrightarrow> fading_status (Fin s) = ''FADING (brightening in mag = getting dimmer)'')
   \<and> (s \<le> - 0.0001 \<longrightarrow> fading_status (Fin s) = ''BRIGHTENING (dimming in mag = getting brighter)'')
   \<and> fading_status (Fin s) \<in> {''STABLE'', ''FADING (brightening in mag = getting dimmer)'',
                                 ''BRIGHTENING (dimming in mag = getting brighter)''}"
  by (simp add: fading_status_def fgt_def)

text \<open>
  Claim C4, as amended. For every light curve with at least 5 r-band samples (one
  timestamp per magnitude, at least two different timestamps) the status returned by
  \<open>analyze_fading\<close> is STABLE exactly when \<open>\<bar>slope\<bar> < 0.0001\<close>; every slope above
  0.0001 gives the FADING label and every slope of at most -0.0001 the BRIGHTENING label;
  the label is one of three fixed strings, which name the direction and hold no number.
  A series of magnitudes strictly increasing over time has a positive slope and a positive
  \<open>mag_change_1yr\<close>, and is STABLE, not FADING, while its slope is below 0.0001; a
  strictly decreasing one has a negative slope and a negative \<open>mag_change_1yr\<close>, and is
  STABLE while its slope is above -0.0001.
\<close>

theorem fading_status_dead_zone:
  assumes n5: "5 \<le> length (mags_r lc)" and len: "length (times_r lc) = length (mags_r lc)"
    and two: "\<exists>t \<in> set (times_r lc). \<exists>t' \<in> set (times_r lc). t \<noteq> t'"
  shows "\<exists>res s. analyze_fading (Some lc) nm = Inr (Some res)
      \<and> slope_mag_per_day res = Fin s \<and> mag_change_1yr res = Fin (s * 365)
      \<and> (status res = ''STABLE'' \<longleftrightarrow> \<bar>s\<bar> < 0.0001)
      \<and> (0.0001 < s \<longrightarrow> status res = ''FADING (brightening in mag = getting dimmer)'')
      \<and> (s \<le> - 0.0001 \<longrightarrow> status res = ''BRIGHTENING (dimming in mag = getting brighter)'')
      \<and> status res \<in> {''STABLE'', ''FADING (brightening in mag = getting dimmer)'',
                         ''BRIGHTENING (dimming in mag = getting brighter)''}
      \<and> (rising (times_r lc) (mags_r lc) \<longrightarrow> 0 < s \<and> 0 < s * 365
            \<and> (s < 0.0001 \<longrightarrow> status res = ''STABLE''))
      \<and> (falling (times_r lc) (mags_r lc) \<longrightarrow> s < 0 \<and> s * 365 < 0
            \<and> (- 0.0001 < s \<longrightarrow> status res = ''STABLE''))"
proof -
  obtain t t' where tt: "t \<in> set (times_r lc)" "t' \<in> set (times_r lc)" "t \<noteq> t'"
    using two by blast
  define s where "s = lsq_slope (times_r lc) (mags_r lc)"
  define res where "res = \<lparr> slope_mag_per_day = Fin s, mag_change_1yr = Fin (s * 365),
      is_fading = (0.2 < s * 365), status = fading_status (Fin s),
      n_observations = length (mags_r lc) \<rparr>"
  have r1: "analyze_fading (Some lc) nm = Inr (Some res)"
    unfolding res_def s_def by (rule analyze_fading_fit [OF n5 len tt])
  have r2: "slope_mag_per_day res = Fin s" and r3: "mag_change_1yr res = Fin (s * 365)"
    and r4: "status res = fading_status (Fin s)"
    by (simp_all add: res_def)
  note st = fading_status_cases [of s, folded r4]
  have c1: "status res = ''STABLE'' \<longleftrightarrow> \<bar>s\<bar> < 0.0001" using st by blast
  have c2: "0.0001 < s \<longrightarrow> status res = ''FADING (brightening in mag = getting dimmer)''"
    using st by blast
  have c3: "s \<le> - 0.0001 \<longrightarrow> status res = ''BRIGHTENING (dimming in mag = getting brighter)''"
    using st by blast
  have c4: "status res \<in> {''STABLE'', ''FADING (brightening in mag = getting dimmer)'',
                         ''BRIGHTENING (dimming in mag = getting brighter)''}"
    using st by blast
  have c5: "rising (times_r lc) (mags_r lc) \<longrightarrow> 0 < s \<and> 0 < s * 365
            \<and> (s < 0.0001 \<longrightarrow> status res = ''STABLE'')"
  proof
    assume "rising (times_r lc) (mags_r lc)"
    then have "0 < s" unfolding s_def by (rule rising_slope_pos [OF len _ tt])
    then show "0 < s \<and> 0 < s * 365 \<and> (s < 0.0001 \<longrightarrow> status res = ''STABLE'')"
      using c1 by auto
  qed
  have c6: "falling (times_r lc) (mags_r lc) \<longrightarrow> s < 0 \<and> s * 365 < 0
            \<and> (- 0.0001 < s \<longrightarrow> status res = ''STABLE'')"
  proof
    assume "falling (times_r lc) (mags_r lc)"
    then have "s < 0" unfolding s_def by (rule falling_slope_neg [OF len _ tt])
    then show "s < 0 \<and> s * 365 < 0 \<and> (- 0.0001 < s \<longrightarrow> status res = ''STABLE'')"
      using c1 by auto
  qed
  show ?thesis
    using r1 r2 r3 c1 c2 c3 c4 c5 c6 by blast
qed

lemma rising_sorted:
  "length ts = length ys \<Longrightarrow> sorted_wrt (<) ts \<Longrightarrow> sorted_wrt (<) ys \<Longrightarrow> rising ts ys"
  unfolding rising_def
proof (intro allI impI)
  fix i j
  assume len: "length ts = length ys" and st: "sorted_wrt (<) ts" and sy: "sorted_wrt (<) ys"
    and i: "i < length ts" and j: "j < length ts" and lt: "ts ! i < ts ! j"
  have "i < j"
  proof (rule ccontr)
    assume "\<not> i < j"
    then consider "i = j" | "j < i" by linarith
    then show False
    proof cases
      case 1 with lt show False by simp
    next
      case 2
      then have "ts ! j < ts ! i" using st i by (simp add: sorted_wrt_iff_nth_less)
      with lt show False by simp
    qed
  qed
  then show "ys ! i < ys ! j" using sy j len by (simp add: sorted_wrt_iff_nth_less)
qed

lemma falling_sorted:
  assumes len: "length ts = length ys" and st: "sorted_wrt (<) ts" and sy: "sorted_wrt (>) ys"
  shows "falling ts ys"
proof -
  have "sorted_wrt (<) (map uminus ys)"
    using sy by (simp add: sorted_wrt_map)
  then have "rising ts (map uminus ys)"
    using len st by (intro rising_sorted) simp_all
  then show ?thesis using len by (simp add: rising_def falling_def)
qed

text \<open>
  Claim C4 as stated fails: the magnitudes of \<open>lc_slow_rise\<close> increase strictly with
  time, and the status is STABLE, not FADING.
\<close>

theorem slow_rise_is_stable:
  "sorted_wrt (<) (times_r lc_slow_rise) \<and> sorted_wrt (<) (mags_r lc_slow_rise)
   \<and> analyze_fading (Some lc_slow_rise) () =
       Inr (Some \<lparr> slope_mag_per_day = Fin 0.00001, mag_change_1yr = Fin 0.00365,
                    is_fading = False, status = ''STABLE'', n_observations = 5 \<rparr>)"
  by (simp add: lc_slow_rise_def analyze_fading_def polyfit_def fading_status_def fgt_def)

text \<open>
  Scenario A, a rising series of slope 0.001, labelled FADING; and its mirror image, of
  slope -0.001, labelled BRIGHTENING.
\<close>

theorem fading_status_dead_zone_witness:
  "5 \<le> length (mags_r lc_scenario_a) \<and> length (times_r lc_scenario_a) = length (mags_r lc_scenario_a)
   \<and> rising (times_r lc_scenario_a) (mags_r lc_scenario_a)
   \<and> (\<exists>res. analyze_fading (Some lc_scenario_a) () = Inr (Some res)
         \<and> mag_change_1yr res = Fin 0.365
         \<and> status res = ''FADING (brightening in mag = getting dimmer)'')
   \<and> falling (times_r lc_steady_brightening) (mags_r lc_steady_brightening)
   \<and> (\<exists>res. analyze_fading (Some lc_steady_brightening) () = Inr (Some res)
         \<and> mag_change_1yr res = Fin (- 0.365)
         \<and> status res = ''BRIGHTENING (dimming in mag = getting brighter)'')"
proof -
  have n5: "5 \<le> length (mags_r lc_scenario_a)"
    and len: "length (times_r lc_scenario_a) = length (mags_r lc_scenario_a)"
    and two: "\<exists>t \<in> set (times_r lc_scenario_a). \<exists>t' \<in> set (times_r lc_scenario_a). t \<noteq> t'"
    by (auto simp add: lc_scenario_a_def)
  have up: "rising (times_r lc_scenario_a) (mags_r lc_scenario_a)"
    by (rule rising_sorted) (simp_all add: lc_scenario_a_def)
  have ev: "analyze_fading (Some lc_scenario_a) () =
       Inr (Some \<lparr> slope_mag_per_day = Fin 0.001, mag_change_1yr = Fin 0.365,
                    is_fading = True, status = ''FADING (brightening in mag = getting dimmer)'', n_observations = 5 \<rparr>)"
    by (simp add: lc_scenario_a_def analyze_fading_def polyfit_def fading_status_def fgt_def)
  obtain res s where r: "analyze_fading (Some lc_scenario_a) () = Inr (Some res)"
    and "slope_mag_per_day res = Fin s" and "mag_change_1yr res = Fin (s * 365)"
    and "0.0001 < s \<longrightarrow> status res = ''FADING (brightening in mag = getting dimmer)''"
    using fading_status_dead_zone [OF n5 len two, of "()"] by blast
  with ev have a: "mag_change_1yr res = Fin 0.365 \<and> status res = ''FADING (brightening in mag = getting dimmer)''"
    by auto
  have n5': "5 \<le> length (mags_r lc_steady_brightening)"
    and len': "length (times_r lc_steady_brightening) = length (mags_r lc_steady_brightening)"
    and two': "\<exists>t \<in> set (times_r lc_steady_brightening). \<exists>t' \<in> set (times_r lc_steady_brightening). t \<noteq> t'"
    by (auto simp add: lc_steady_brightening_def)
  have down: "falling (times_r lc_steady_brightening) (mags_r lc_steady_brightening)"
    by (rule falling_sorted) (simp_all add: lc_steady_brightening_def)
  have ev': "analyze_fading (Some lc_steady_brightening) () =
       Inr (Some \<lparr> slope_mag_per_day = Fin (- 0.001), mag_change_1yr = Fin (- 0.365),
                    is_fading = False, status = ''BRIGHTENING (dimming in mag = getting brighter)'', n_observations = 5 \<rparr>)"
    by (simp add: lc_steady_brightening_def analyze_fading_def polyfit_def fading_status_def fgt_def)
  obtain res' s' where r': "analyze_fading (Some lc_steady_brightening) () = Inr (Some res')"
    and "slope_mag_per_day res' = Fin s'" and "mag_change_1yr res' = Fin (s' * 365)"
    and "s' \<le> - 0.0001 \<longrightarrow> status res' = ''BRIGHTENING (dimming in mag = getting brighter)''"
    using fading_status_dead_zone [OF n5' len' two', of "()"] by blast
  with ev' have b: "mag_change_1yr res' = Fin (- 0.365)
      \<and> status res' = ''BRIGHTENING (dimming in mag = getting brighter)''"
    by auto
  from n5 len up r a down r' b show ?thesis by blast
qed

section \<open>Properties of the time grid and of the fit on it\<close>

lemma np_min_Min: "xs \<noteq> [] \<Longrightarrow> np_min xs = Inr (Min (set xs))"
  by (cases xs) (simp_all add: Min.set_eq_fold [symmetric])

lemma np_max_Max: "xs \<noteq> [] \<Longrightarrow> np_max xs = Inr (Max (set xs))"
  by (cases xs) (simp_all add: Max.set_eq_fold [symmetric])

lemma length_linspace: "length (linspace a b n) = n"
  by (simp add: linspace_def)

lemma nth_linspace:
  "i < n \<Longrightarrow> linspace a b n ! i = a + real i * ((b - a) / real (n - 1))"
  by (auto simp add: linspace_def)

lemma linspace_first: "0 < n \<Longrightarrow> linspace a b n ! 0 = a"
  by (simp add: nth_linspace)

lemma linspace_last: "2 \<le> n \<Longrightarrow> linspace a b n ! (n - 1) = b"
  by (simp add: nth_linspace)

lemma linspace_two_points:
  assumes "2 \<le> n" "a \<noteq> b"
  shows "a \<in> set (linspace a b n)" "b \<in> set (linspace a b n)"
proof -
  have "linspace a b n ! 0 \<in> set (linspace a b n)"
    using assms(1) by (intro nth_mem) (simp add: length_linspace)
  then show "a \<in> set (linspace a b n)" using assms(1) by (simp add: linspace_first)
  have "linspace a b n ! (n - 1) \<in> set (linspace a b n)"
    using assms(1) by (intro nth_mem) (simp add: length_linspace)
  then show "b \<in> set (linspace a b n)" using assms(1) linspace_last [of n a b] by simp
qed

lemma polyfit_two_points:
  assumes len: "length xs = length ys" and two: "t \<in> set xs" "t' \<in> set xs" "t \<noteq> t'"
  shows "\<exists>sl ic. polyfit xs ys = Inr (sl, ic)
           \<and> (list_all isfinite ys \<longrightarrow> sl = Fin (lsq_slope xs (map the_fin ys)))
           \<and> (\<not> list_all isfinite ys \<longrightarrow> sl = NaN)"
proof -
  have ne: "xs \<noteq> []" using two(1) by auto
  have d: "ols_det xs \<noteq> 0" using ols_det_pos [OF two] by simp
  show ?thesis
    using ne len d unfolding polyfit_def ols_det_def lsq_slope_def Let_def by simp
qed

lemma interpolate_bands_wf:
  assumes "wf_lc lc" "3 \<le> length (mags_g lc)" "3 \<le> length (mags_r lc)"
  shows "interpolate_bands lc grid =
           Inr (map (call_linear (sort_key fst (zip (times_g lc) (mags_g lc)))) grid,
                map (call_linear (sort_key fst (zip (times_r lc) (mags_r lc)))) grid)"
  using assms by (auto simp add: interpolate_bands_def interp1d_def wf_lc_def)

lemma analyze_color_fit:
  assumes wf: "wf_lc lc" and g3: "3 \<le> length (mags_g lc)" and r3: "3 \<le> length (mags_r lc)"
    and base: "100 \<le> overlap_end lc - overlap_start lc"
  shows "\<exists>sl ic. polyfit (common_grid lc) (color_series lc) = Inr (sl, ic)
           \<and> analyze_color_evolution (Some lc) =
               Inr (Some \<lparr> mean_color_gr = np_mean_f (color_series lc),
                            color_slope_per_day = sl,
                            color_change_1yr = fmul sl (Fin 365),
                            is_significant_evolution = fgt (fabs (fmul sl (Fin 365))) (Fin 0.1),
                            color_status = color_status_of sl (fmul sl (Fin 365)),
                            baseline_days = overlap_end lc - overlap_start lc \<rparr>)"
proof -
  have tg: "times_g lc \<noteq> []" and tr: "times_r lc \<noteq> []"
    using wf g3 r3 by (auto simp: wf_lc_def)
  let ?n = "min (length (mags_g lc)) (length (mags_r lc))"
  have n2: "2 \<le> ?n" using g3 r3 by simp
  have ne: "overlap_start lc \<noteq> overlap_end lc" using base by auto
  have len: "length (common_grid lc) = length (color_series lc)"
    by (simp add: common_grid_def color_series_def g_on_grid_def r_on_grid_def length_linspace)
  obtain sl ic where fit: "polyfit (common_grid lc) (color_series lc) = Inr (sl, ic)"
    using polyfit_two_points [OF len linspace_two_points [OF n2 ne, folded common_grid_def] ne]
    by blast
  have "analyze_color_evolution (Some lc) =
               Inr (Some \<lparr> mean_color_gr = np_mean_f (color_series lc),
                            color_slope_per_day = sl,
                            color_change_1yr = fmul sl (Fin 365),
                            is_significant_evolution = fgt (fabs (fmul sl (Fin 365))) (Fin 0.1),
                            color_status = color_status_of sl (fmul sl (Fin 365)),
                            baseline_days = overlap_end lc - overlap_start lc \<rparr>)"
    using g3 r3 base fit
    unfolding analyze_color_evolution_def
    by (simp add: np_min_Min [OF tg] np_min_Min [OF tr] np_max_Max [OF tg] np_max_Max [OF tr]
        interpolate_bands_wf [OF wf g3 r3] Let_def
        flip: overlap_start_def overlap_end_def)
       (simp add: common_grid_def color_series_def g_on_grid_def r_on_grid_def Let_def)
  with fit show ?thesis by blast
qed

section \<open>Absent results of the color analyzer\<close>

lemma analyze_color_few:
  "length (mags_g lc) < 3 \<or> length (mags_r lc) < 3 \<Longrightarrow> analyze_color_evolution (Some lc) = Inr None"
  by (auto simp add: analyze_color_evolution_def)

lemma analyze_color_short:
  assumes "times_g lc \<noteq> []" "times_r lc \<noteq> []" "overlap_end lc - overlap_start lc < 100"
  shows "analyze_color_evolution (Some lc) = Inr None"
  using assms(3) unfolding analyze_color_evolution_def
  by (simp add: np_min_Min [OF assms(1)] np_min_Min [OF assms(2)] np_max_Max [OF assms(1)]
      np_max_Max [OF assms(2)] Let_def flip: overlap_start_def overlap_end_def)



lemma analyze_color_never_raises:
  assumes "wf_lc lc"
  shows "\<exists>r. analyze_color_evolution (Some lc) = Inr r"
proof (cases "length (mags_g lc) < 3 \<or> length (mags_r lc) < 3")
  case True
  then show ?thesis using analyze_color_few by blast
next
  case False
  then have g3: "3 \<le> length (mags_g lc)" and r3: "3 \<le> length (mags_r lc)" by simp_all
  then have tg: "times_g lc \<noteq> []" and tr: "times_r lc \<noteq> []"
    using assms by (auto simp: wf_lc_def)
  show ?thesis
  proof (cases "overlap_end lc - overlap_start lc < 100")
    case True
    then show ?thesis using analyze_color_short [OF tg tr] by blast
  next
    case False
    then show ?thesis using analyze_color_fit [OF assms g3 r3] by fastforce
  qed
qed



section \<open>Evaluating the color analyzer\<close>

lemmas call_linear_eval = call_linear_def searchsorted_def np_clip_def np_take_def Let_def

lemma analyze_color_unfold:
  assumes wf: "wf_lc lc" and g3: "3 \<le> length (mags_g lc)" and r3: "3 \<le> length (mags_r lc)"
    and base: "100 \<le> overlap_end lc - overlap_start lc"
    and fit: "polyfit (common_grid lc) (color_series lc) = Inr (sl, ic)"
  shows "analyze_color_evolution (Some lc) =
               Inr (Some \<lparr> mean_color_gr = np_mean_f (color_series lc),
                            color_slope_per_day = sl,
                            color_change_1yr = fmul sl (Fin 365),
                            is_significant_evolution = fgt (fabs (fmul sl (Fin 365))) (Fin 0.1),
                            color_status = color_status_of sl (fmul sl (Fin 365)),
                            baseline_days = overlap_end lc - overlap_start lc \<rparr>)"
  using analyze_color_fit [OF wf g3 r3 base] fit by auto

lemma scenario_b_window:
  "overlap_start lc_scenario_b = 0" "overlap_end lc_scenario_b = 400"
  by (simp_all add: lc_scenario_b_def overlap_start_def overlap_end_def)

lemma scenario_b_grid: "common_grid lc_scenario_b = [0, 100, 200, 300, 400]"
  unfolding common_grid_def scenario_b_window
  by (simp add: lc_scenario_b_def linspace_def upt_rec [of 0] upt_rec [of 1] upt_rec [of 2] upt_rec [of 3] upt_rec [of 4])

lemma scenario_b_series:
  "g_on_grid lc_scenario_b = [Fin 15, Fin 15, Fin 15, Fin 15, Fin 15]"
  "r_on_grid lc_scenario_b = [Fin 14, Fin 14, Fin 14, Fin 14, Fin 14]"
  unfolding g_on_grid_def r_on_grid_def scenario_b_grid
  by (simp_all add: lc_scenario_b_def call_linear_eval)

lemma scenario_b_color: "color_series lc_scenario_b = [Fin 1, Fin 1, Fin 1, Fin 1, Fin 1]"
  unfolding color_series_def scenario_b_series by (simp add: fsub_def)

lemma scenario_b_polyfit: "polyfit (common_grid lc_scenario_b) (color_series lc_scenario_b) = Inr (Fin 0, Fin 1)"
  unfolding scenario_b_grid scenario_b_color by (simp add: polyfit_def)

lemma scenario_b_eval:
  "analyze_color_evolution (Some lc_scenario_b) =
     Inr (Some \<lparr> mean_color_gr = Fin 1, color_slope_per_day = Fin 0, color_change_1yr = Fin 0,
                  is_significant_evolution = False, color_status = ''STABLE'', baseline_days = 400 \<rparr>)"
proof -
  have "wf_lc lc_scenario_b" "3 \<le> length (mags_g lc_scenario_b)" "3 \<le> length (mags_r lc_scenario_b)"
    by (simp_all add: lc_scenario_b_def wf_lc_def)
  moreover have "100 \<le> overlap_end lc_scenario_b - overlap_start lc_scenario_b"
    by (simp add: scenario_b_window)
  ultimately show ?thesis
    using scenario_b_polyfit
    by (simp add: analyze_color_unfold scenario_b_window scenario_b_color np_mean_f_def
        color_status_of_def fgt_def)
qed

lemma color_boundary_window:
  "overlap_start lc_color_boundary = 1" "overlap_end lc_color_boundary = 4001"
  by (simp_all add: lc_color_boundary_def overlap_start_def overlap_end_def)

lemma color_boundary_grid: "common_grid lc_color_boundary = [1, 1001, 2001, 3001, 4001]"
  unfolding common_grid_def color_boundary_window
  by (simp add: lc_color_boundary_def linspace_def upt_rec [of 0] upt_rec [of 1] upt_rec [of 2]
      upt_rec [of 3] upt_rec [of 4])

lemma color_boundary_series:
  "g_on_grid lc_color_boundary = [Fin 2.0, Fin 2.1, Fin 2.2, Fin 2.3, Fin 2.4]"
  "r_on_grid lc_color_boundary = [Fin 1, Fin 1, Fin 1, Fin 1, Fin 1]"
  unfolding g_on_grid_def r_on_grid_def color_boundary_grid
  by (simp_all add: lc_color_boundary_def call_linear_eval)

lemma color_boundary_color:
  "color_series lc_color_boundary = [Fin 1.0, Fin 1.1, Fin 1.2, Fin 1.3, Fin 1.4]"
  unfolding color_series_def color_boundary_series by (simp add: fsub_def)

lemma color_boundary_polyfit:
  "polyfit (common_grid lc_color_boundary) (color_series lc_color_boundary) = Inr (Fin 0.0001, Fin 0.9999)"
  unfolding color_boundary_grid color_boundary_color by (simp add: polyfit_def)

lemma format_2f_example: "format_2f (Fin (73 / 2000)) = ''0.04''"
  by (simp add: round_half_even_def digit_char_def)

text \<open>
  Claim C5 says that every positive color slope outside the dead zone \<open>\<bar>slope\<bar> < 0.0001\<close>
  is labelled REDDENING. At a slope of exactly 0.0001 the program takes the last branch:
  the color rises, the annual change is +0.0365, and the label is BLUEING.
\<close>

theorem color_boundary_slope_is_blueing:
  "analyze_color_evolution (Some lc_color_boundary) =
     Inr (Some \<lparr> mean_color_gr = Fin 1.2, color_slope_per_day = Fin 0.0001,
                  color_change_1yr = Fin 0.0365, is_significant_evolution = False,
                  color_status = ''BLUEING ('' @ delta_utf8 @ ''(g-r) = 0.04 mag/yr)'',
                  baseline_days = 4000 \<rparr>)"
proof -
  have "wf_lc lc_color_boundary" "3 \<le> length (mags_g lc_color_boundary)"
    "3 \<le> length (mags_r lc_color_boundary)"
    by (simp_all add: lc_color_boundary_def wf_lc_def)
  moreover have "100 \<le> overlap_end lc_color_boundary - overlap_start lc_color_boundary"
    by (simp add: color_boundary_window)
  ultimately show ?thesis
    using color_boundary_polyfit
    by (simp add: analyze_color_unfold color_boundary_window color_boundary_color np_mean_f_def
        color_status_of_def fgt_def format_2f_example del: format_2f.simps)
qed


section \<open>Linear interpolation\<close>

lemma searchsorted_below: "p < searchsorted xs x \<Longrightarrow> xs ! p < x"
  unfolding searchsorted_def
  by (metis nth_mem set_takeWhileD takeWhile_nth)

lemma searchsorted_at: "searchsorted xs x < length xs \<Longrightarrow> x \<le> xs ! searchsorted xs x"
  unfolding searchsorted_def
  using nth_length_takeWhile [of "\<lambda>t. t < x" xs] by simp

lemma searchsorted_le: "searchsorted xs x \<le> length xs"
  unfolding searchsorted_def by (rule length_takeWhile_le)

lemma call_linear_bracket:
  assumes srt: "sorted_wrt (<) (map fst f)" and n2: "2 \<le> length f"
    and lo: "fst (f ! 0) \<le> x" and hi: "x \<le> fst (f ! (length f - 1))"
  shows "\<exists>a. a + 1 < length f \<and> fst (f ! a) \<le> x \<and> x \<le> fst (f ! (a + 1))
           \<and> call_linear f x =
               Fin (snd (f ! a) + (snd (f ! (a + 1)) - snd (f ! a)) / (fst (f ! (a + 1)) - fst (f ! a)) * (x - fst (f ! a)))"
proof -
  let ?xs = "map fst f"
  let ?k = "searchsorted ?xs x"
  have len: "length ?xs = length f" by simp
  have mono: "fst (f ! i) < fst (f ! j)" if "i < j" "j < length f" for i j
  proof -
    have "?xs ! i < ?xs ! j"
      using sorted_wrt_nth_less [OF srt that(1)] that(2) by simp
    then show ?thesis using that by simp
  qed
  have kle: "?k \<le> length f - 1"
  proof (rule ccontr)
    assume "\<not> ?k \<le> length f - 1"
    then have "length f - 1 < ?k" by simp
    then have "?xs ! (length f - 1) < x" by (rule searchsorted_below)
    with hi n2 show False by simp
  qed
  define a where "a = (if ?k = 0 then 0 else ?k - 1)"
  have a1: "a + 1 < length f" using kle n2 by (auto simp: a_def)
  have clip: "np_clip 1 (int (length ?xs) - 1) (int ?k) = int a + 1"
    using kle n2 by (auto simp: np_clip_def a_def)
  have below: "fst (f ! a) \<le> x"
  proof (cases "?k = 0")
    case True
    then show ?thesis using lo by (simp add: a_def)
  next
    case False
    then have "a < ?k" by (simp add: a_def)
    then have "?xs ! a < x" by (rule searchsorted_below)
    then show ?thesis using a1 by simp
  qed
  have above: "x \<le> fst (f ! (a + 1))"
  proof (cases "?k = 0")
    case True
    have pos: "0 < length f" using n2 by linarith
    then have "x \<le> ?xs ! 0" using searchsorted_at [of ?xs x] True by simp
    then have "x \<le> fst (f ! 0)" by (simp only: nth_map [OF pos])
    moreover have "fst (f ! 0) < fst (f ! 1)" using n2 by (intro mono) simp_all
    ultimately show ?thesis using True by (simp add: a_def)
  next
    case False
    then have k: "?k = a + 1" by (simp add: a_def)
    have "x \<le> ?xs ! ?k" using searchsorted_at [of ?xs x] a1 k by simp
    then show ?thesis using a1 k by simp
  qed
  have strict: "fst (f ! a) < fst (f ! (a + 1))"
    using a1 by (intro mono) simp_all
  have val: "call_linear f x =
      Fin (snd (f ! a) + (snd (f ! (a + 1)) - snd (f ! a)) / (fst (f ! (a + 1)) - fst (f ! a)) * (x - fst (f ! a)))"
    using strict a1 unfolding call_linear_def Let_def clip
    by (simp add: np_take_def nat_add_distrib)
  from a1 below above val show ?thesis by blast
qed

lemma sorted_samples:
  assumes len: "length ts = length ys" and dist: "distinct ts"
  defines "f \<equiv> sort_key fst (zip ts ys)"
  shows "sorted_wrt (<) (map fst f)" and "length f = length ts" and "set f = set (zip ts ys)"
    and "set (map fst f) = set ts"
proof -
  have fst_zip: "map fst (zip ts ys) = ts" using len by simp
  show sf: "set f = set (zip ts ys)" by (simp add: f_def)
  show "length f = length ts" using len by (simp add: f_def)
  have "distinct (map fst (zip ts ys))" using dist by (simp only: fst_zip)
  then have "distinct (zip ts ys)" and "inj_on fst (set (zip ts ys))"
    by (simp_all add: distinct_map)
  then have "distinct (map fst f)"
    by (simp add: distinct_map f_def)
  moreover have "sorted (map fst f)" unfolding f_def by (rule sorted_sort_key)
  ultimately show "sorted_wrt (<) (map fst f)" by (simp add: strict_sorted_iff)
  have "set (map fst f) = fst ` set (zip ts ys)" using sf by simp
  also have "\<dots> = set (map fst (zip ts ys))" by simp
  finally show "set (map fst f) = set ts" by (simp only: fst_zip)
qed

lemma call_linear_interp:
  assumes len: "length ts = length ys" and dist: "distinct ts" and n2: "2 \<le> length ts"
    and lo: "Min (set ts) \<le> x" and hi: "x \<le> Max (set ts)"
  shows "\<exists>v. call_linear (sort_key fst (zip ts ys)) x = Fin v \<and> lin_interp ts ys x v"
proof -
  define f where "f = sort_key fst (zip ts ys)"
  note s = sorted_samples [OF len dist, folded f_def]
  have srt: "sorted_wrt (<) (map fst f)" and lf: "length f = length ts"
    and sf: "set f = set (zip ts ys)" and sx: "set (map fst f) = set ts"
    using s by simp_all
  have n2f: "2 \<le> length f" using n2 lf by simp
  have mono: "fst (f ! i) < fst (f ! j)" if "i < j" "j < length f" for i j
  proof -
    have "map fst f ! i < map fst f ! j"
      using sorted_wrt_nth_less [OF srt that(1)] that(2) by simp
    then show ?thesis using that by simp
  qed
  have mono_le: "fst (f ! i) \<le> fst (f ! j)" if "i \<le> j" "j < length f" for i j
    using mono [of i j] that by (cases "i = j") auto
  have ne: "ts \<noteq> []" using n2 by auto
  have "Min (set ts) \<in> set ts" using ne by simp
  then have "Min (set ts) \<in> set (map fst f)" using sx by simp
  then obtain p where p: "p < length f" "fst (f ! p) = Min (set ts)"
    by (auto simp: in_set_conv_nth)
  have lo': "fst (f ! 0) \<le> x"
    using mono_le [of 0 p] p lo by simp
  have "Max (set ts) \<in> set ts" using ne by simp
  then have "Max (set ts) \<in> set (map fst f)" using sx by simp
  then obtain q where q: "q < length f" "fst (f ! q) = Max (set ts)"
    by (auto simp: in_set_conv_nth)
  have "fst (f ! q) \<le> fst (f ! (length f - 1))"
    using q n2f by (intro mono_le) linarith+
  then have hi': "x \<le> fst (f ! (length f - 1))"
    using q hi by simp
  obtain a where a1: "a + 1 < length f" and below: "fst (f ! a) \<le> x" and above: "x \<le> fst (f ! (a + 1))"
    and val: "call_linear f x =
      Fin (snd (f ! a) + (snd (f ! (a + 1)) - snd (f ! a)) / (fst (f ! (a + 1)) - fst (f ! a)) * (x - fst (f ! a)))"
    using call_linear_bracket [OF srt n2f lo' hi'] by blast
  have "f ! a \<in> set (zip ts ys)" using a1 sf by (metis add_lessD1 nth_mem)
  then obtain i where i: "i < length ts" "ts ! i = fst (f ! a)" "ys ! i = snd (f ! a)"
    by (auto simp: in_set_zip)
  have "f ! (a + 1) \<in> set (zip ts ys)" using a1 sf by (metis nth_mem)
  then obtain j where j: "j < length ts" "ts ! j = fst (f ! (a + 1))" "ys ! j = snd (f ! (a + 1))"
    by (auto simp: in_set_zip)
  have strict: "fst (f ! a) < fst (f ! (a + 1))" using a1 by (intro mono) simp_all
  have gap: "\<not> (fst (f ! a) < ts ! k \<and> ts ! k < fst (f ! (a + 1)))" if "k < length ts" for k
  proof
    assume b: "fst (f ! a) < ts ! k \<and> ts ! k < fst (f ! (a + 1))"
    have "ts ! k \<in> set (map fst f)" using that sx by simp
    then obtain r where r: "r < length f" "fst (f ! r) = ts ! k"
      by (auto simp: in_set_conv_nth)
    have "a < r"
    proof (rule ccontr)
      assume "\<not> a < r"
      then have "fst (f ! r) \<le> fst (f ! a)" using a1 by (intro mono_le) simp_all
      with b r show False by simp
    qed
    moreover have "r < a + 1"
    proof (rule ccontr)
      assume "\<not> r < a + 1"
      then have "fst (f ! (a + 1)) \<le> fst (f ! r)" using r by (intro mono_le) simp_all
      with b r show False by simp
    qed
    ultimately show False by simp
  qed
  have "ts ! i < ts ! j" "ts ! i \<le> x" "x \<le> ts ! j"
    and "\<forall>k < length ts. \<not> (ts ! i < ts ! k \<and> ts ! k < ts ! j)"
    using strict below above gap unfolding i(2) j(2) by blast+
  then have "lin_interp ts ys x (ys ! i + (ys ! j - ys ! i) / (ts ! j - ts ! i) * (x - ts ! i))"
    unfolding lin_interp_def using i(1) j(1) by blast
  then have "lin_interp ts ys x (snd (f ! a) + (snd (f ! (a + 1)) - snd (f ! a)) / (fst (f ! (a + 1)) - fst (f ! a)) * (x - fst (f ! a)))"
    by (simp only: i j)
  with val show ?thesis unfolding f_def by blast
qed

section \<open>The color pipeline\<close>

lemma linspace_bounds:
  assumes "a \<le> b" "i < n"
  shows "a \<le> linspace a b n ! i" and "linspace a b n ! i \<le> b"
proof -
  have v: "linspace a b n ! i = a + real i * ((b - a) / real (n - 1))"
    using assms(2) by (rule nth_linspace)
  have "0 \<le> real i * ((b - a) / real (n - 1))" using assms(1) by simp
  then show "a \<le> linspace a b n ! i" unfolding v by simp
  show "linspace a b n ! i \<le> b"
  proof (cases "n = 1")
    case True
    then show ?thesis using assms unfolding v by simp
  next
    case False
    then have n: "0 < real (n - 1)" using assms(2) by simp
    have "real i \<le> real (n - 1)" using assms(2) by simp
    then have "real i / real (n - 1) \<le> 1" using n by (simp add: divide_le_eq)
    then have "(b - a) * (real i / real (n - 1)) \<le> (b - a) * 1"
      using assms(1) by (intro mult_left_mono) simp_all
    then show ?thesis unfolding v by (simp add: algebra_simps)
  qed
qed

lemma fold_fadd_Fin: "fold (\<lambda>x acc. fadd acc x) (map Fin cs) (Fin a) = Fin (a + sum_list cs)"
  by (induction cs arbitrary: a) (simp_all add: algebra_simps)

lemma np_mean_f_Fin: "cs \<noteq> [] \<Longrightarrow> np_mean_f (map Fin cs) = Fin (band_mean cs)"
  by (simp add: np_mean_f_def fold_fadd_Fin band_mean_def)

lemma map2_fsub_Fin: "map2 fsub (map Fin gs) (map Fin rs) = map Fin (map2 (-) gs rs)"
proof (induction gs arbitrary: rs)
  case Nil
  then show ?case by simp
next
  case (Cons g gs)
  then show ?case by (cases rs) (simp_all add: fsub_def)
qed

lemma band_on_grid:
  assumes len: "length ts = length ys" and dist: "distinct ts" and n2: "2 \<le> length ts"
    and inside: "\<forall>x \<in> set grid. Min (set ts) \<le> x \<and> x \<le> Max (set ts)"
  shows "\<exists>vs. map (call_linear (sort_key fst (zip ts ys))) grid = map Fin vs
           \<and> length vs = length grid
           \<and> (\<forall>i < length grid. lin_interp ts ys (grid ! i) (vs ! i))"
  using inside
proof (induction grid)
  case Nil
  then show ?case by simp
next
  case (Cons x grid)
  then obtain vs where vs: "map (call_linear (sort_key fst (zip ts ys))) grid = map Fin vs"
    "length vs = length grid" "\<forall>i < length grid. lin_interp ts ys (grid ! i) (vs ! i)"
    by auto
  from Cons.prems have "Min (set ts) \<le> x" "x \<le> Max (set ts)" by simp_all
  from call_linear_interp [OF len dist n2 this]
  obtain v where v: "call_linear (sort_key fst (zip ts ys)) x = Fin v" "lin_interp ts ys x v"
    by blast
  have "\<forall>i < length (x # grid). lin_interp ts ys ((x # grid) ! i) ((v # vs) ! i)"
    using v(2) vs(3) by (auto simp: nth_Cons')
  then show ?case
    using v(1) vs(1,2) by (intro exI [of _ "v # vs"]) simp
qed

text \<open>
  Claim C2, as amended. For every light curve of finite samples with at least 3 samples in
  each band, one timestamp per magnitude and no timestamp repeated within a band, whose
  window \<open>[start, end]\<close>,
  \<open>start\<close> the larger of the two first times and \<open>end\<close> the smaller of the two last
  times, spans at least 100 days, \<open>analyze_color_evolution\<close> returns a result built as
  follows: the grid has exactly \<open>min (count g) (count r)\<close> points, evenly spaced from
  \<open>start\<close> to \<open>end\<close>; each band is linearly interpolated at every grid point; the
  color is the g value minus the r value, point by point; the slope reported is the slope of
  the least-squares line of the color against grid time; \<open>color_change_1yr\<close> is the slope
  times 365; and \<open>is_significant_evolution\<close> is true exactly when
  \<open>\<bar>color_change_1yr\<bar> > 0.1\<close>.
\<close>

theorem color_evolution_pipeline:
  assumes wf: "wf_lc lc" and g3: "3 \<le> length (mags_g lc)" and r3: "3 \<le> length (mags_r lc)"
    and base: "100 \<le> overlap_end lc - overlap_start lc"
    and dg: "distinct (times_g lc)" and dr: "distinct (times_r lc)"
  shows "\<exists>res gs rs s c.
      analyze_color_evolution (Some lc) = Inr (Some res)
    \<and> length (common_grid lc) = min (length (mags_g lc)) (length (mags_r lc))
    \<and> (\<forall>i < length (common_grid lc).
          common_grid lc ! i = overlap_start lc
             + real i * ((overlap_end lc - overlap_start lc) / real (length (common_grid lc) - 1)))
    \<and> length gs = length (common_grid lc) \<and> length rs = length (common_grid lc)
    \<and> (\<forall>i < length (common_grid lc). lin_interp (times_g lc) (mags_g lc) (common_grid lc ! i) (gs ! i))
    \<and> (\<forall>i < length (common_grid lc). lin_interp (times_r lc) (mags_r lc) (common_grid lc ! i) (rs ! i))
    \<and> is_ols_line (common_grid lc) (map2 (-) gs rs) s c
    \<and> (\<forall>s' c'. is_ols_line (common_grid lc) (map2 (-) gs rs) s' c' \<longrightarrow> s' = s)
    \<and> color_slope_per_day res = Fin s
    \<and> color_change_1yr res = Fin (s * 365)
    \<and> (is_significant_evolution res \<longleftrightarrow> 0.1 < \<bar>s * 365\<bar>)
    \<and> mean_color_gr res = Fin (band_mean (map2 (-) gs rs))
    \<and> baseline_days res = overlap_end lc - overlap_start lc"
proof -
  let ?grid = "common_grid lc"
  let ?n = "min (length (mags_g lc)) (length (mags_r lc))"
  have tg: "times_g lc \<noteq> []" and tr: "times_r lc \<noteq> []"
    and lg: "length (times_g lc) = length (mags_g lc)" and lr: "length (times_r lc) = length (mags_r lc)"
    using wf g3 r3 by (auto simp: wf_lc_def)
  have n2: "2 \<le> ?n" using g3 r3 by simp
  have le: "overlap_start lc \<le> overlap_end lc" and ne: "overlap_start lc \<noteq> overlap_end lc"
    using base by simp_all
  have glen: "length ?grid = ?n" by (simp add: common_grid_def length_linspace)
  have gnth: "\<forall>i < length ?grid. ?grid ! i = overlap_start lc
             + real i * ((overlap_end lc - overlap_start lc) / real (length ?grid - 1))"
    unfolding glen by (simp add: common_grid_def nth_linspace)
  have in_window: "overlap_start lc \<le> x \<and> x \<le> overlap_end lc" if "x \<in> set ?grid" for x
  proof -
    from that obtain i where i: "i < length ?grid" "?grid ! i = x"
      unfolding in_set_conv_nth by blast
    from i(1) have "i < ?n" by (simp only: glen)
    from linspace_bounds [OF le this] i(2) show ?thesis
      by (simp add: common_grid_def)
  qed
  have in_g: "\<forall>x \<in> set ?grid. Min (set (times_g lc)) \<le> x \<and> x \<le> Max (set (times_g lc))"
    using in_window by (fastforce simp: overlap_start_def overlap_end_def)
  have in_r: "\<forall>x \<in> set ?grid. Min (set (times_r lc)) \<le> x \<and> x \<le> Max (set (times_r lc))"
    using in_window by (fastforce simp: overlap_start_def overlap_end_def)
  obtain gs where gs: "g_on_grid lc = map Fin gs" "length gs = length ?grid"
    "\<forall>i < length ?grid. lin_interp (times_g lc) (mags_g lc) (?grid ! i) (gs ! i)"
    using band_on_grid [OF lg dg _ in_g] g3 lg unfolding g_on_grid_def by auto
  obtain rs where rs: "r_on_grid lc = map Fin rs" "length rs = length ?grid"
    "\<forall>i < length ?grid. lin_interp (times_r lc) (mags_r lc) (?grid ! i) (rs ! i)"
    using band_on_grid [OF lr dr _ in_r] r3 lr unfolding r_on_grid_def by auto
  let ?cs = "map2 (-) gs rs"
  have cs: "color_series lc = map Fin ?cs"
    unfolding color_series_def gs(1) rs(1) by (rule map2_fsub_Fin)
  have clen: "length ?grid = length ?cs" using gs(2) rs(2) by simp
  have cne: "?cs \<noteq> []" using clen glen n2 by auto
  note pts = linspace_two_points [OF n2 ne, folded common_grid_def]
  have fit: "polyfit ?grid (color_series lc) = Inr (Fin (lsq_slope ?grid ?cs), Fin (lsq_intercept ?grid ?cs))"
    unfolding cs using polyfit_full_rank [OF clen pts ne]
    by (simp add: lsq_slope_def lsq_intercept_def)
  define s where "s = lsq_slope ?grid ?cs"
  define res where "res = \<lparr> mean_color_gr = np_mean_f (color_series lc),
                            color_slope_per_day = Fin s,
                            color_change_1yr = fmul (Fin s) (Fin 365),
                            is_significant_evolution = fgt (fabs (fmul (Fin s) (Fin 365))) (Fin 0.1),
                            color_status = color_status_of (Fin s) (fmul (Fin s) (Fin 365)),
                            baseline_days = overlap_end lc - overlap_start lc \<rparr>"
  have r1: "analyze_color_evolution (Some lc) = Inr (Some res)"
    unfolding res_def s_def by (rule analyze_color_unfold [OF wf g3 r3 base fit])
  have r2: "color_slope_per_day res = Fin s" "color_change_1yr res = Fin (s * 365)"
    "is_significant_evolution res \<longleftrightarrow> 0.1 < \<bar>s * 365\<bar>"
    "baseline_days res = overlap_end lc - overlap_start lc"
    by (simp_all add: res_def fgt_def)
  have "mean_color_gr res = np_mean_f (color_series lc)" by (simp add: res_def)
  then have r3': "mean_color_gr res = Fin (band_mean ?cs)"
    unfolding cs by (simp only: np_mean_f_Fin [OF cne])
  have ols: "is_ols_line ?grid ?cs s (lsq_intercept ?grid ?cs)"
    unfolding s_def by (rule lsq_is_ols(1) [OF clen pts ne])
  have uniq: "\<forall>s' c'. is_ols_line ?grid ?cs s' c' \<longrightarrow> s' = s"
    unfolding s_def using lsq_is_ols(2) [OF clen pts ne] by blast
  show ?thesis
  proof (intro exI conjI)
    show "analyze_color_evolution (Some lc) = Inr (Some res)" by (rule r1)
    show "length ?grid = ?n" by (rule glen)
    show "\<forall>i < length ?grid. ?grid ! i = overlap_start lc
             + real i * ((overlap_end lc - overlap_start lc) / real (length ?grid - 1))" by (rule gnth)
    show "length gs = length ?grid" by (rule gs(2))
    show "length rs = length ?grid" by (rule rs(2))
    show "\<forall>i < length ?grid. lin_interp (times_g lc) (mags_g lc) (?grid ! i) (gs ! i)" by (rule gs(3))
    show "\<forall>i < length ?grid. lin_interp (times_r lc) (mags_r lc) (?grid ! i) (rs ! i)" by (rule rs(3))
    show "is_ols_line ?grid ?cs s (lsq_intercept ?grid ?cs)" by (rule ols)
    show "\<forall>s' c'. is_ols_line ?grid ?cs s' c' \<longrightarrow> s' = s" by (rule uniq)
    show "color_slope_per_day res = Fin s" by (rule r2(1))
    show "color_change_1yr res = Fin (s * 365)" by (rule r2(2))
    show "is_significant_evolution res \<longleftrightarrow> 0.1 < \<bar>s * 365\<bar>" by (rule r2(3))
    show "mean_color_gr res = Fin (band_mean ?cs)" by (rule r3')
    show "baseline_days res = overlap_end lc - overlap_start lc" by (rule r2(4))
  qed
qed

lemma mixed_cadence_window:
  "overlap_start lc_mixed_cadence = 50" "overlap_end lc_mixed_cadence = 250"
  by (simp_all add: lc_mixed_cadence_def overlap_start_def overlap_end_def)

lemma mixed_cadence_grid: "common_grid lc_mixed_cadence = [50, 150, 250]"
  unfolding common_grid_def mixed_cadence_window
  by (simp add: lc_mixed_cadence_def linspace_def upt_rec [of 0] upt_rec [of 1] upt_rec [of 2])

lemma mixed_cadence_series:
  "g_on_grid lc_mixed_cadence = [Fin 15.1, Fin 15.3, Fin 15.5]"
  "r_on_grid lc_mixed_cadence = [Fin 14, Fin 14, Fin 14]"
  unfolding g_on_grid_def r_on_grid_def mixed_cadence_grid
  by (simp_all add: lc_mixed_cadence_def call_linear_eval)

lemma mixed_cadence_color: "color_series lc_mixed_cadence = [Fin 1.1, Fin 1.3, Fin 1.5]"
  unfolding color_series_def mixed_cadence_series by (simp add: fsub_def)

lemma mixed_cadence_polyfit:
  "polyfit (common_grid lc_mixed_cadence) (color_series lc_mixed_cadence) = Inr (Fin 0.002, Fin 1)"
  unfolding mixed_cadence_grid mixed_cadence_color by (simp add: polyfit_def)

lemma format_2f_example2: "format_2f (Fin (73 / 100)) = ''0.73''"
  by (simp add: round_half_even_def digit_char_def)

lemma mixed_cadence_eval:
  "analyze_color_evolution (Some lc_mixed_cadence) =
     Inr (Some \<lparr> mean_color_gr = Fin 1.3, color_slope_per_day = Fin 0.002,
                  color_change_1yr = Fin 0.73, is_significant_evolution = True,
                  color_status = ''REDDENING ('' @ delta_utf8 @ ''(g-r) = +0.73 mag/yr)'',
                  baseline_days = 200 \<rparr>)"
proof -
  have "wf_lc lc_mixed_cadence" "3 \<le> length (mags_g lc_mixed_cadence)"
    "3 \<le> length (mags_r lc_mixed_cadence)"
    by (simp_all add: lc_mixed_cadence_def wf_lc_def)
  moreover have "100 \<le> overlap_end lc_mixed_cadence - overlap_start lc_mixed_cadence"
    by (simp add: mixed_cadence_window)
  ultimately show ?thesis
    using mixed_cadence_polyfit
    by (simp add: analyze_color_unfold mixed_cadence_window mixed_cadence_color np_mean_f_def
        color_status_of_def fgt_def format_2f_example2 del: format_2f.simps)
qed

text \<open>
  The bands of different cadence: a grid of three points, a color rising by 0.002 per day,
  an annual change of 0.73, significant.
\<close>

theorem color_evolution_pipeline_witness:
  "wf_lc lc_mixed_cadence \<and> 3 \<le> length (mags_g lc_mixed_cadence) \<and> 3 \<le> length (mags_r lc_mixed_cadence)
   \<and> 100 \<le> overlap_end lc_mixed_cadence - overlap_start lc_mixed_cadence
   \<and> distinct (times_g lc_mixed_cadence) \<and> distinct (times_r lc_mixed_cadence)
   \<and> length (common_grid lc_mixed_cadence) = 3
   \<and> (\<exists>res. analyze_color_evolution (Some lc_mixed_cadence) = Inr (Some res)
          \<and> color_change_1yr res = Fin 0.73 \<and> is_significant_evolution res)"
proof -
  have h: "wf_lc lc_mixed_cadence" "3 \<le> length (mags_g lc_mixed_cadence)"
    "3 \<le> length (mags_r lc_mixed_cadence)"
    "100 \<le> overlap_end lc_mixed_cadence - overlap_start lc_mixed_cadence"
    "distinct (times_g lc_mixed_cadence)" "distinct (times_r lc_mixed_cadence)"
    by (simp_all add: mixed_cadence_window) (simp_all add: lc_mixed_cadence_def wf_lc_def)
  obtain res s where r: "analyze_color_evolution (Some lc_mixed_cadence) = Inr (Some res)"
    and n: "length (common_grid lc_mixed_cadence)
              = min (length (mags_g lc_mixed_cadence)) (length (mags_r lc_mixed_cadence))"
    and sl: "color_slope_per_day res = Fin s" and ch: "color_change_1yr res = Fin (s * 365)"
    and sg: "is_significant_evolution res \<longleftrightarrow> 0.1 < \<bar>s * 365\<bar>"
    using color_evolution_pipeline [OF h] by blast
  from r sl have "s = 0.002" by (auto simp add: mixed_cadence_eval)
  with ch sg have "color_change_1yr res = Fin 0.73 \<and> is_significant_evolution res" by simp
  moreover from n have "length (common_grid lc_mixed_cadence) = 3"
    by (simp add: lc_mixed_cadence_def)
  ultimately show ?thesis using h r by blast
qed

section \<open>Reproducibility of the synthetic light curve\<close>

lemma length_draw_n: "length (fst (draw_n d n s)) = n"
  by (induction n arbitrary: s) (simp_all add: split_beta Let_def)

lemma query_offline:
  assumes "no_live_network env outcome"
  shows "query_ztf_lightcurve env outcome st ra dec name =
           (Some (fst (generate_synthetic_lc env st name ra dec)), snd (generate_synthetic_lc env st name ra dec))"
  using assms by (auto simp add: query_ztf_lightcurve_def no_live_network_def split_beta Let_def)

lemma generate_independent_of_state:
  "fst (generate_synthetic_lc env st name ra dec) = fst (generate_synthetic_lc env st' name ra' dec')"
  by (simp add: generate_synthetic_lc_def split_beta Let_def)

text \<open>
  Claim C9, as amended. For every object identifier, two acquisition calls made in one
  interpreter process (the two calls see the same \<^verbatim>\<open>hash\<close>), with the same identifier
  and no live network access, return the same synthetic light curve (same sample counts,
  timestamps and magnitudes), whatever the state of the generator and of the analyzer
  before each call; in particular when the second call follows the first.
\<close>

theorem synthetic_acquisition_reproducible:
  assumes "no_live_network env outcome1" and "no_live_network env outcome2"
  shows "(\<exists>lc. fst (query_ztf_lightcurve env outcome1 st1 ra dec name) = Some lc)
         \<and> fst (query_ztf_lightcurve env outcome1 st1 ra dec name)
             = fst (query_ztf_lightcurve env outcome2 st2 ra dec name)
         \<and> fst (query_ztf_lightcurve env outcome2
                   (snd (query_ztf_lightcurve env outcome1 st1 ra dec name)) ra dec name)
             = fst (query_ztf_lightcurve env outcome1 st1 ra dec name)"
  unfolding query_offline [OF assms(1)] query_offline [OF assms(2)]
  using generate_independent_of_state [of env st1 name ra dec st2 ra dec]
    generate_independent_of_state [of env "snd (generate_synthetic_lc env st1 name ra dec)" name ra dec st1 ra dec]
  by simp

text \<open>One call whose request raised, one without the \<^verbatim>\<open>requests\<close> library.\<close>

theorem synthetic_acquisition_reproducible_witness:
  "no_live_network env_offline RequestRaised \<and> no_live_network env_offline (Response 200 None)
   \<and> fst (query_ztf_lightcurve env_offline RequestRaised \<lparr> use_real_data = False, np_random = 0 \<rparr>
            (VFloat (Fin 83.8)) (VFloat (Fin (- 5.4))) (VStr ''YSO_1''))
     = fst (query_ztf_lightcurve env_offline (Response 200 None) \<lparr> use_real_data = True, np_random = 99 \<rparr>
            (VFloat (Fin 83.8)) (VFloat (Fin (- 5.4))) (VStr ''YSO_1''))"
proof -
  have a: "no_live_network env_offline RequestRaised" and b: "no_live_network env_offline (Response 200 None)"
    by (simp_all add: no_live_network_def env_offline_def)
  show ?thesis
    using a b synthetic_acquisition_reproducible [OF a b] by blast
qed

text \<open>
  Claim C10. The synthetic light curve is a function of the object name only: called with
  the same object name and different right ascension and declination,
  \<open>generate_synthetic_lc\<close> returns the same light curve and leaves the same state, and
  the light curve does not depend on the state of the generator before the call either.
\<close>

theorem synthetic_lc_ignores_position:
  "generate_synthetic_lc env st object_name ra dec = generate_synthetic_lc env st object_name ra' dec'
   \<and> fst (generate_synthetic_lc env st object_name ra dec)
       = fst (generate_synthetic_lc env st' object_name ra' dec')"
  by (simp add: generate_synthetic_lc_def split_beta Let_def)

section \<open>Properties of the source analysis\<close>

lemma wf_parse_observation: "wf_lc lc \<Longrightarrow> wf_lc (parse_observation ob lc)"
  by (simp add: parse_observation_def wf_lc_def Let_def split: option.splits)

lemma wf_fold_parse: "wf_lc lc \<Longrightarrow> wf_lc (fold parse_observation obs lc)"
  by (induction obs arbitrary: lc) (simp_all add: wf_parse_observation)

lemma wf_parse_ztf_response: "parse_ztf_response obs = Some lc \<Longrightarrow> wf_lc lc"
proof -
  have "wf_lc (fold parse_observation obs \<lparr> mags_g = [], mags_r = [], times_g = [], times_r = [] \<rparr>)"
    by (rule wf_fold_parse) (simp add: wf_lc_def)
  then show "parse_ztf_response obs = Some lc \<Longrightarrow> wf_lc lc"
    by (auto simp add: parse_ztf_response_def Let_def split: if_splits)
qed

lemma wf_generate_synthetic_lc: "wf_lc (fst (generate_synthetic_lc env st name ra dec))"
  by (simp add: generate_synthetic_lc_def split_beta Let_def wf_lc_def length_draw_n)

lemma wf_query:
  assumes "fst (query_ztf_lightcurve env outcome st ra dec name) = Some lc"
  shows "wf_lc lc"
  using assms wf_generate_synthetic_lc [of env st name ra dec]
  by (auto simp add: query_ztf_lightcurve_def split_beta Let_def
      dest: wf_parse_ztf_response split: http_outcome.splits option.splits if_splits)

lemma analyze_brightness_some: "\<exists>b. analyze_brightness (Some lc) = Inr (Some b)"
proof -
  have r: "\<exists>x. (if length (mags_r lc) > 0
                 then (case np_min (mags_r lc) of
                         Inl e \<Rightarrow> Inl e
                       | Inr mn \<Rightarrow> Inr (np_mean (mags_r lc), Fin mn, np_std (mags_r lc)))
                 else Inr (NaN, NaN, NaN)) = Inr x"
    by (cases "mags_r lc") simp_all
  have g: "\<exists>x. (if length (mags_g lc) > 0
                      then (case np_min (mags_g lc) of
                              Inl e \<Rightarrow> Inl e
                            | Inr mn \<Rightarrow> Inr (np_mean (mags_g lc), Fin mn))
                      else Inr (NaN, NaN)) = Inr x"
    by (cases "mags_g lc") simp_all
  from r g show ?thesis
    unfolding analyze_brightness_def by (auto simp add: split_beta)
qed

lemma analyze_fading_total:
  assumes "length (times_r lc) = length (mags_r lc)"
    and "length (mags_r lc) < 5 \<or> (\<exists>t \<in> set (times_r lc). \<exists>t' \<in> set (times_r lc). t \<noteq> t')"
  shows "\<exists>r. analyze_fading (Some lc) nm = Inr r"
proof (cases "length (mags_r lc) < 5")
  case True
  then show ?thesis by (simp add: analyze_fading_few)
next
  case False
  with assms(2) obtain t t' where "t \<in> set (times_r lc)" "t' \<in> set (times_r lc)" "t \<noteq> t'" by blast
  from analyze_fading_fit [OF _ assms(1) this, of nm] False show ?thesis by simp
qed

lemma analyze_source_unfold:
  assumes "source_dict ''RAdeg'' = Some ra" "source_dict ''DEdeg'' = Some dec"
    "source_dict ''Objname'' = Some name"
    and "query_ztf_lightcurve env outcome st ra dec name = (Some lc, st')"
    and "analyze_brightness (Some lc) = Inr brightness"
    and "analyze_fading (Some lc) name = Inr fading"
    and "analyze_color_evolution (Some lc) = Inr color_evol"
  shows "analyze_source env outcome st source_dict =
    (Inr (Some
      [(''Objname'', name),
       (''RAdeg'', ra),
       (''DEdeg'', dec),
       (''YSO_CLASS'', (case source_dict ''YSO_CLASS'' of None \<Rightarrow> VStr [] | Some v \<Rightarrow> v)),
       (''W2magMean'', (case source_dict ''W2magMean'' of None \<Rightarrow> VFloat NaN | Some v \<Rightarrow> v)),
       (''r_mean'', VFloat (case brightness of None \<Rightarrow> NaN | Some b \<Rightarrow> r_mean b)),
       (''r_priority'', VStr (case brightness of None \<Rightarrow> ''UNKNOWN'' | Some b \<Rightarrow> priority b)),
       (''fading_mag_per_year'', VFloat (case fading of None \<Rightarrow> NaN | Some f \<Rightarrow> mag_change_1yr f)),
       (''is_fading'', VBool (case fading of None \<Rightarrow> False | Some f \<Rightarrow> is_fading f)),
       (''fading_status'', VStr (case fading of None \<Rightarrow> ''UNKNOWN'' | Some f \<Rightarrow> status f)),
       (''color_change_1yr'', VFloat (case color_evol of None \<Rightarrow> NaN | Some c \<Rightarrow> color_change_1yr c)),
       (''is_reddening_bluing'', VBool (case color_evol of None \<Rightarrow> False | Some c \<Rightarrow> is_significant_evolution c)),
       (''color_status'', VStr (case color_evol of None \<Rightarrow> ''UNKNOWN'' | Some c \<Rightarrow> color_status c)),
       (''baseline_days'', VFloat (case color_evol of None \<Rightarrow> NaN | Some c \<Rightarrow> Fin (baseline_days c)))]),
     st')"
  using assms by (simp add: analyze_source_def)

lemma analyze_source_absent:
  assumes "source_dict ''RAdeg'' = Some ra" "source_dict ''DEdeg'' = Some dec"
    "source_dict ''Objname'' = Some name"
  shows "fst (analyze_source env outcome st source_dict) = Inr None
         \<longleftrightarrow> fst (query_ztf_lightcurve env outcome st ra dec name) = None"
  using assms
  by (auto simp add: analyze_source_def split_beta Let_def split: option.splits sum.splits)

text \<open>
  Claim C7, as amended. For every catalog record (with its name and coordinates) and
  observations of finite values, \<open>analyze_source\<close> returns no record exactly when no
  light curve is obtained. When a light curve is obtained whose r band has fewer than 5
  samples or two different timestamps, all three analyzers run and a record
  is returned whatever each of them returns; the record has the fourteen fixed keys; the
  fields of each analyzer hold its output, or, when it returned nothing, not-a-number for
  the numeric fields, \<^verbatim>\<open>UNKNOWN\<close> for the status fields and \<^verbatim>\<open>False\<close> for the flags.
\<close>

theorem analyze_source_record:
  assumes keys: "source_dict ''RAdeg'' = Some ra" "source_dict ''DEdeg'' = Some dec"
    "source_dict ''Objname'' = Some name"
  shows "(fst (analyze_source env outcome st source_dict) = Inr None
           \<longleftrightarrow> fst (query_ztf_lightcurve env outcome st ra dec name) = None)
    \<and> (\<forall>lc. fst (query_ztf_lightcurve env outcome st ra dec name) = Some lc
           \<and> (length (mags_r lc) < 5 \<or> (\<exists>t \<in> set (times_r lc). \<exists>t' \<in> set (times_r lc). t \<noteq> t'))
         \<longrightarrow> (\<exists>row b fd ce.
               fst (analyze_source env outcome st source_dict) = Inr (Some row)
             \<and> map fst row = row_keys
             \<and> analyze_brightness (Some lc) = Inr (Some b)
             \<and> analyze_fading (Some lc) name = Inr fd
             \<and> analyze_color_evolution (Some lc) = Inr ce
             \<and> map_of row ''r_mean'' = Some (VFloat (r_mean b))
             \<and> map_of row ''r_priority'' = Some (VStr (priority b))
             \<and> map_of row ''fading_mag_per_year''
                  = Some (VFloat (case fd of None \<Rightarrow> NaN | Some f \<Rightarrow> mag_change_1yr f))
             \<and> map_of row ''is_fading'' = Some (VBool (case fd of None \<Rightarrow> False | Some f \<Rightarrow> is_fading f))
             \<and> map_of row ''fading_status''
                  = Some (VStr (case fd of None \<Rightarrow> ''UNKNOWN'' | Some f \<Rightarrow> status f))
             \<and> map_of row ''color_change_1yr''
                  = Some (VFloat (case ce of None \<Rightarrow> NaN | Some c \<Rightarrow> color_change_1yr c))
             \<and> map_of row ''is_reddening_bluing''
                  = Some (VBool (case ce of None \<Rightarrow> False | Some c \<Rightarrow> is_significant_evolution c))
             \<and> map_of row ''color_status''
                  = Some (VStr (case ce of None \<Rightarrow> ''UNKNOWN'' | Some c \<Rightarrow> color_status c))
             \<and> map_of row ''baseline_days''
                  = Some (VFloat (case ce of None \<Rightarrow> NaN | Some c \<Rightarrow> Fin (baseline_days c)))))"
proof (intro conjI allI impI)
  show "fst (analyze_source env outcome st source_dict) = Inr None
           \<longleftrightarrow> fst (query_ztf_lightcurve env outcome st ra dec name) = None"
    by (rule analyze_source_absent [OF keys])
next
  fix lc
  assume h: "fst (query_ztf_lightcurve env outcome st ra dec name) = Some lc
           \<and> (length (mags_r lc) < 5 \<or> (\<exists>t \<in> set (times_r lc). \<exists>t' \<in> set (times_r lc). t \<noteq> t'))"
  then have q: "query_ztf_lightcurve env outcome st ra dec name
                  = (Some lc, snd (query_ztf_lightcurve env outcome st ra dec name))"
    by (metis prod.collapse)
  have wf: "wf_lc lc" using h wf_query by blast
  obtain b where b: "analyze_brightness (Some lc) = Inr (Some b)"
    using analyze_brightness_some by blast
  obtain fd where fd: "analyze_fading (Some lc) name = Inr fd"
    using analyze_fading_total [of lc name] h wf by (auto simp: wf_lc_def)
  obtain ce where ce: "analyze_color_evolution (Some lc) = Inr ce"
    using analyze_color_never_raises [OF wf] by blast
  note row = analyze_source_unfold [OF keys q b fd ce]
  show "\<exists>row b fd ce.
               fst (analyze_source env outcome st source_dict) = Inr (Some row)
             \<and> map fst row = row_keys
             \<and> analyze_brightness (Some lc) = Inr (Some b)
             \<and> analyze_fading (Some lc) name = Inr fd
             \<and> analyze_color_evolution (Some lc) = Inr ce
             \<and> map_of row ''r_mean'' = Some (VFloat (r_mean b))
             \<and> map_of row ''r_priority'' = Some (VStr (priority b))
             \<and> map_of row ''fading_mag_per_year''
                  = Some (VFloat (case fd of None \<Rightarrow> NaN | Some f \<Rightarrow> mag_change_1yr f))
             \<and> map_of row ''is_fading'' = Some (VBool (case fd of None \<Rightarrow> False | Some f \<Rightarrow> is_fading f))
             \<and> map_of row ''fading_status''
                  = Some (VStr (case fd of None \<Rightarrow> ''UNKNOWN'' | Some f \<Rightarrow> status f))
             \<and> map_of row ''color_change_1yr''
                  = Some (VFloat (case ce of None \<Rightarrow> NaN | Some c \<Rightarrow> color_change_1yr c))
             \<and> map_of row ''is_reddening_bluing''
                  = Some (VBool (case ce of None \<Rightarrow> False | Some c \<Rightarrow> is_significant_evolution c))
             \<and> map_of row ''color_status''
                  = Some (VStr (case ce of None \<Rightarrow> ''UNKNOWN'' | Some c \<Rightarrow> color_status c))
             \<and> map_of row ''baseline_days''
                  = Some (VFloat (case ce of None \<Rightarrow> NaN | Some c \<Rightarrow> Fin (baseline_days c)))"
    unfolding row
    apply (rule exI, rule exI [of _ b], rule exI [of _ fd], rule exI [of _ ce])
    apply (intro conjI)
                  apply (rule fst_conv)
                 apply (simp add: row_keys_def)
                apply (rule b)
               apply (rule fd)
              apply (rule ce)
             apply simp_all
    done
qed

lemma query_three_r:
  "fst (query_ztf_lightcurve env_online answer_three_r st (VFloat (Fin 83.8)) (VFloat (Fin (- 5.4))) (VStr ''YSO_1''))
     = Some \<lparr> mags_g = [], mags_r = [15.0, 15.2, 15.4], times_g = [], times_r = [58000, 58100, 58200] \<rparr>"
  by (simp add: query_ztf_lightcurve_def env_online_def env_offline_def answer_three_r_def
      parse_ztf_response_def parse_observation_def py_lower_def lower_char_def Let_def)

lemma query_other_band:
  "fst (query_ztf_lightcurve env_online answer_other_band st (VFloat (Fin 83.8)) (VFloat (Fin (- 5.4))) (VStr ''YSO_1''))
     = None"
  by (simp add: query_ztf_lightcurve_def env_online_def env_offline_def answer_other_band_def
      parse_ztf_response_def parse_observation_def py_lower_def lower_char_def Let_def)

text \<open>
  An answer in another band gives no light curve and no record. Three r-band observations
  give a record with a priority, and the sentinels for the fading and the color analyzer.
\<close>

theorem analyze_source_record_witness:
  "source_example ''RAdeg'' = Some (VFloat (Fin 83.8))
   \<and> source_example ''DEdeg'' = Some (VFloat (Fin (- 5.4)))
   \<and> source_example ''Objname'' = Some (VStr ''YSO_1'')
   \<and> fst (analyze_source env_online answer_other_band \<lparr> use_real_data = False, np_random = 0 \<rparr> source_example)
       = Inr None
   \<and> (\<exists>row. fst (analyze_source env_online answer_three_r \<lparr> use_real_data = False, np_random = 0 \<rparr> source_example)
                = Inr (Some row)
          \<and> map fst row = row_keys
          \<and> map_of row ''r_priority'' = Some (VStr ''HIGH'')
          \<and> map_of row ''fading_mag_per_year'' = Some (VFloat NaN)
          \<and> map_of row ''is_fading'' = Some (VBool False)
          \<and> map_of row ''fading_status'' = Some (VStr ''UNKNOWN'')
          \<and> map_of row ''color_change_1yr'' = Some (VFloat NaN)
          \<and> map_of row ''is_reddening_bluing'' = Some (VBool False)
          \<and> map_of row ''color_status'' = Some (VStr ''UNKNOWN'')
          \<and> map_of row ''baseline_days'' = Some (VFloat NaN))"
proof -
  let ?st = "\<lparr> use_real_data = False, np_random = 0::nat \<rparr>"
  let ?lc = "\<lparr> mags_g = [], mags_r = [15.0, 15.2, 15.4], times_g = [], times_r = [58000, 58100, 58200] \<rparr>"
  have keys: "source_example ''RAdeg'' = Some (VFloat (Fin 83.8))"
    "source_example ''DEdeg'' = Some (VFloat (Fin (- 5.4)))"
    "source_example ''Objname'' = Some (VStr ''YSO_1'')"
    by (simp_all add: source_example_def)
  note thm1 = analyze_source_record [OF keys, of env_online answer_other_band ?st]
  note thm2 = analyze_source_record [OF keys, of env_online answer_three_r ?st]
  have absent: "fst (analyze_source env_online answer_other_band ?st source_example) = Inr None"
    using thm1 [THEN conjunct1] query_other_band by simp
  have few: "length (mags_r ?lc) < 5" by simp
  obtain row b fd ce where
    row: "fst (analyze_source env_online answer_three_r ?st source_example) = Inr (Some row)"
    and k: "map fst row = row_keys"
    and b: "analyze_brightness (Some ?lc) = Inr (Some b)"
    and fd: "analyze_fading (Some ?lc) (VStr ''YSO_1'') = Inr fd"
    and ce: "analyze_color_evolution (Some ?lc) = Inr ce"
    and f: "map_of row ''r_priority'' = Some (VStr (priority b))"
      "map_of row ''fading_mag_per_year''
                  = Some (VFloat (case fd of None \<Rightarrow> NaN | Some f \<Rightarrow> mag_change_1yr f))"
      "map_of row ''is_fading'' = Some (VBool (case fd of None \<Rightarrow> False | Some f \<Rightarrow> is_fading f))"
      "map_of row ''fading_status''
                  = Some (VStr (case fd of None \<Rightarrow> ''UNKNOWN'' | Some f \<Rightarrow> status f))"
      "map_of row ''color_change_1yr''
                  = Some (VFloat (case ce of None \<Rightarrow> NaN | Some c \<Rightarrow> color_change_1yr c))"
      "map_of row ''is_reddening_bluing''
                  = Some (VBool (case ce of None \<Rightarrow> False | Some c \<Rightarrow> is_significant_evolution c))"
      "map_of row ''color_status''
                  = Some (VStr (case ce of None \<Rightarrow> ''UNKNOWN'' | Some c \<Rightarrow> color_status c))"
      "map_of row ''baseline_days''
                  = Some (VFloat (case ce of None \<Rightarrow> NaN | Some c \<Rightarrow> Fin (baseline_days c)))"
    using thm2 [THEN conjunct2, rule_format, of ?lc, OF conjI [OF query_three_r disjI1 [OF few]]]
    by blast
  have "fd = None" using fd by (simp add: analyze_fading_few)
  moreover have "ce = None" using ce by (simp add: analyze_color_few)
  moreover have "priority b = ''HIGH''"
    using b analyze_brightness_nonempty [of ?lc] by (auto simp add: np_mean_def priority_of_def)
  ultimately show ?thesis
    using keys absent row k f by simp
qed

section \<open>Boundary slopes and repeated timestamps\<close>

text \<open>
  Outside the boundary value the labels of the color analyzer follow the sign of the
  slope, with the annual change formatted to two decimals.
\<close>

lemma color_status_cases:
  "(color_status_of (Fin s) ch = ''STABLE'' \<longleftrightarrow> \<bar>s\<bar> < 0.0001)
   \<and> (0.0001 < s \<longrightarrow> color_status_of (Fin s) ch
          = ''REDDENING ('' @ delta_utf8 @ ''(g-r) = +'' @ format_2f (fabs ch) @ '' mag/yr)'')
   \<and> (s \<le> - 0.0001 \<longrightarrow> color_status_of (Fin s) ch
          = ''BLUEING ('' @ delta_utf8 @ ''(g-r) = '' @ format_2f ch @ '' mag/yr)'')"
  by (simp add: color_status_of_def fgt_def)

lemma color_status_outside_boundary:
  assumes wf: "wf_lc lc" and g3: "3 \<le> length (mags_g lc)" and r3: "3 \<le> length (mags_r lc)"
    and base: "100 \<le> overlap_end lc - overlap_start lc"
  shows "\<exists>res. analyze_color_evolution (Some lc) = Inr (Some res)
      \<and> (color_slope_per_day res = NaN \<or> (\<exists>s. color_slope_per_day res = Fin s))
      \<and> (color_slope_per_day res = NaN \<longrightarrow> color_status res \<noteq> ''STABLE'')
      \<and> (\<forall>s. color_slope_per_day res = Fin s \<longrightarrow>
            color_change_1yr res = Fin (s * 365)
          \<and> (color_status res = ''STABLE'' \<longleftrightarrow> \<bar>s\<bar> < 0.0001)
          \<and> (0.0001 < s \<longrightarrow> color_status res
                = ''REDDENING ('' @ delta_utf8 @ ''(g-r) = +'' @ format_2f (Fin \<bar>s * 365\<bar>) @ '' mag/yr)'')
          \<and> (s \<le> - 0.0001 \<longrightarrow> color_status res
                = ''BLUEING ('' @ delta_utf8 @ ''(g-r) = '' @ format_2f (Fin (s * 365)) @ '' mag/yr)''))"
proof -
  have n2: "2 \<le> min (length (mags_g lc)) (length (mags_r lc))" using g3 r3 by simp
  have ne: "overlap_start lc \<noteq> overlap_end lc" using base by auto
  have len: "length (common_grid lc) = length (color_series lc)"
    by (simp add: common_grid_def color_series_def g_on_grid_def r_on_grid_def length_linspace)
  obtain sl ic where fit: "polyfit (common_grid lc) (color_series lc) = Inr (sl, ic)"
    and kind: "sl = NaN \<or> (\<exists>s. sl = Fin s)"
    using polyfit_two_points [OF len linspace_two_points [OF n2 ne, folded common_grid_def] ne]
    by (cases "list_all isfinite (color_series lc)") auto
  note res = analyze_color_unfold [OF wf g3 r3 base fit]
  from kind show ?thesis
  proof
    assume "sl = NaN"
    then show ?thesis unfolding res by (simp add: color_status_of_def fgt_def)
  next
    assume "\<exists>s. sl = Fin s"
    then obtain s where "sl = Fin s" by blast
    then show ?thesis unfolding res using color_status_cases [of s "Fin (s * 365)"] by simp
  qed
qed

text \<open>
  A repeated first timestamp does not make the interpolation raise: the first grid value
  is not-a-number.
\<close>

lemma repeated_first_window:
  "overlap_start lc_repeated_first = 0" "overlap_end lc_repeated_first = 200"
  by (simp_all add: lc_repeated_first_def overlap_start_def overlap_end_def)

lemma repeated_first_grid: "common_grid lc_repeated_first = [0, 100, 200]"
  unfolding common_grid_def repeated_first_window
  by (simp add: lc_repeated_first_def linspace_def upt_rec [of 0] upt_rec [of 1] upt_rec [of 2])

lemma repeated_first_series:
  "g_on_grid lc_repeated_first = [NaN, Fin 16.5, Fin 17]"
  "r_on_grid lc_repeated_first = [Fin 14, Fin 14, Fin 14]"
  unfolding g_on_grid_def r_on_grid_def repeated_first_grid
  by (simp_all add: lc_repeated_first_def call_linear_eval inf_of_sign_def)

lemma repeated_first_color: "color_series lc_repeated_first = [NaN, Fin 2.5, Fin 3]"
  unfolding color_series_def repeated_first_series by (simp add: fsub_def)

lemma repeated_first_polyfit:
  "polyfit (common_grid lc_repeated_first) (color_series lc_repeated_first) = Inr (NaN, NaN)"
  unfolding repeated_first_grid repeated_first_color by (simp add: polyfit_def)

text \<open>
  Claim C2 as stated fails: \<open>lc_repeated_first\<close> has 3 samples in each band and a
  window of 200 days, its g band repeats the timestamp 0, and the color at the first grid
  point, the slope and \<open>color_change_1yr\<close> are not-a-number: no least-squares slope
  is reported (and the status is BLUEING).
\<close>

theorem repeated_first_timestamp_gives_nan:
  "analyze_color_evolution (Some lc_repeated_first) =
     Inr (Some \<lparr> mean_color_gr = NaN, color_slope_per_day = NaN,
                  color_change_1yr = NaN, is_significant_evolution = False,
                  color_status = ''BLUEING ('' @ delta_utf8 @ ''(g-r) = nan mag/yr)'',
                  baseline_days = 200 \<rparr>)"
proof -
  have "wf_lc lc_repeated_first" "3 \<le> length (mags_g lc_repeated_first)"
    "3 \<le> length (mags_r lc_repeated_first)"
    by (simp_all add: lc_repeated_first_def wf_lc_def)
  moreover have "100 \<le> overlap_end lc_repeated_first - overlap_start lc_repeated_first"
    by (simp add: repeated_first_window)
  ultimately show ?thesis
    using repeated_first_polyfit
    by (simp add: analyze_color_unfold repeated_first_window repeated_first_color np_mean_f_def
        color_status_of_def fgt_def)
qed

section \<open>Timestamps that are all equal or repeated\<close>

text \<open>
  Claim C1 as stated fails: \<open>lc_all_at_zero\<close> has 5 r-band samples, all at the
  timestamp 0; the fit raises and \<open>analyze_fading\<close> returns no result at all.
\<close>

theorem all_zero_timestamps_raise:
  "length (mags_r lc_all_at_zero) = 5 \<and> length (times_r lc_all_at_zero) = 5
   \<and> analyze_fading (Some lc_all_at_zero) () = Inl LinAlgError"
  by (simp add: lc_all_at_zero_def analyze_fading_def polyfit_def)







lemma query_five_at_zero:
  "fst (query_ztf_lightcurve env_online answer_five_at_zero st (VFloat (Fin 83.8)) (VFloat (Fin (- 5.4))) (VStr ''YSO_1''))
     = Some \<lparr> mags_g = [], mags_r = [14.0, 14.1, 14.2, 14.3, 14.4], times_g = [], times_r = [0, 0, 0, 0, 0] \<rparr>"
  by (simp add: query_ztf_lightcurve_def env_online_def env_offline_def answer_five_at_zero_def
      parse_ztf_response_def parse_observation_def py_lower_def lower_char_def Let_def)

lemma analyze_source_fading_raises:
  assumes "source_dict ''RAdeg'' = Some ra" "source_dict ''DEdeg'' = Some dec"
    "source_dict ''Objname'' = Some name"
    and "fst (query_ztf_lightcurve env outcome st ra dec name) = Some lc"
    and "analyze_fading (Some lc) name = Inl e"
  shows "fst (analyze_source env outcome st source_dict) = Inl e"
proof -
  obtain b where "analyze_brightness (Some lc) = Inr (Some b)"
    using analyze_brightness_some by blast
  then show ?thesis
    using assms by (simp add: analyze_source_def split_beta)
qed

text \<open>
  Claim C7 as stated fails: when the service answers with five r-band observations at the
  date 0, a light curve is obtained, the fading analyzer raises, and \<open>analyze_source\<close>
  returns neither a record nor nothing: the exception leaves it.
\<close>

theorem five_observations_at_zero_raise:
  "fst (query_ztf_lightcurve env_online answer_five_at_zero \<lparr> use_real_data = False, np_random = 0 \<rparr>
          (VFloat (Fin 83.8)) (VFloat (Fin (- 5.4))) (VStr ''YSO_1''))
     = Some \<lparr> mags_g = [], mags_r = [14.0, 14.1, 14.2, 14.3, 14.4], times_g = [], times_r = [0, 0, 0, 0, 0] \<rparr>
   \<and> fst (analyze_source env_online answer_five_at_zero \<lparr> use_real_data = False, np_random = 0 \<rparr> source_example)
       = Inl LinAlgError"
proof -
  have keys: "source_example ''RAdeg'' = Some (VFloat (Fin 83.8))"
    "source_example ''DEdeg'' = Some (VFloat (Fin (- 5.4)))"
    "source_example ''Objname'' = Some (VStr ''YSO_1'')"
    by (simp_all add: source_example_def)
  have "analyze_fading (Some \<lparr> mags_g = [], mags_r = [14.0, 14.1, 14.2, 14.3, 14.4], times_g = [],
           times_r = [0, 0, 0, 0, 0] \<rparr>) (VStr ''YSO_1'') = Inl LinAlgError"
    by (simp add: analyze_fading_def polyfit_def)
  from analyze_source_fading_raises [OF keys query_five_at_zero this] query_five_at_zero
  show ?thesis by simp
qed

section \<open>Special values in the r band\<close>

text \<open>On finite samples the reductions on doubles are the reductions on reals.\<close>

lemma fold_fmin_Fin: "fold (\<lambda>y acc. fmin acc y) (map Fin xs) (Fin x) = Fin (fold min xs x)"
  by (induction xs arbitrary: x) (auto simp add: fmin_def min_def)

lemma np_min_f_Fin: "np_min_f (map Fin xs) = map_sum id Fin (np_min xs)"
  by (cases xs) (simp_all add: fold_fmin_Fin)

lemma np_mean_f_np_mean: "xs \<noteq> [] \<Longrightarrow> np_mean_f (map Fin xs) = np_mean xs"
  by (simp add: np_mean_f_Fin np_mean_def band_mean_def)

lemma np_std_f_Fin:
  assumes "xs \<noteq> []"
  shows "np_std_f (map Fin xs) = np_std xs"
proof -
  let ?m = "sum_list xs / real (length xs)"
  have m: "np_mean_f (map Fin xs) = Fin ?m"
    using assms by (simp add: np_mean_f_Fin band_mean_def)
  have sq: "map (\<lambda>x. fmul (fsub x (Fin ?m)) (fsub x (Fin ?m))) (map Fin xs)
              = map Fin (map (\<lambda>x. (x - ?m)\<^sup>2) xs)"
    by (simp add: fsub_def power2_eq_square)
  have ne: "map (\<lambda>x. (x - ?m)\<^sup>2) xs \<noteq> []" using assms by simp
  have nonneg: "0 \<le> sum_list (map (\<lambda>x. (x - ?m)\<^sup>2) xs) / real (length xs)"
    by (intro divide_nonneg_nonneg sum_list_nonneg) auto
  show ?thesis
    unfolding np_std_f_def m Let_def sq np_mean_f_Fin [OF ne]
    using assms nonneg by (simp add: np_std_def band_mean_def Let_def)
qed

lemma analyze_brightness_f_finite:
  "analyze_brightness_f (Some (lc_dict_of lc)) = analyze_brightness (Some lc)"
proof -
  have r: "mags_r lc \<noteq> [] \<Longrightarrow> \<exists>m. np_min (mags_r lc) = Inr m"
    and g: "mags_g lc \<noteq> [] \<Longrightarrow> \<exists>m. np_min (mags_g lc) = Inr m"
    by (rule np_min_nonempty, assumption)+
  show ?thesis
  proof (cases "mags_r lc = []")
    case rT: True
    show ?thesis
    proof (cases "mags_g lc = []")
      case True
      with rT show ?thesis
        by (simp add: analyze_brightness_f_def analyze_brightness_def lc_dict_of_def)
    next
      case False
      with g obtain mg where "np_min (mags_g lc) = Inr mg" by blast
      with rT False show ?thesis
        by (simp add: analyze_brightness_f_def analyze_brightness_def lc_dict_of_def
            np_min_f_Fin np_mean_f_np_mean)
    qed
  next
    case rF: False
    with r obtain mr where mr: "np_min (mags_r lc) = Inr mr" by blast
    show ?thesis
    proof (cases "mags_g lc = []")
      case True
      with rF mr show ?thesis
        by (simp add: analyze_brightness_f_def analyze_brightness_def lc_dict_of_def
            np_min_f_Fin np_mean_f_np_mean np_std_f_Fin)
    next
      case False
      with g obtain mg where "np_min (mags_g lc) = Inr mg" by blast
      with rF mr False show ?thesis
        by (simp add: analyze_brightness_f_def analyze_brightness_def lc_dict_of_def
            np_min_f_Fin np_mean_f_np_mean np_std_f_Fin)
    qed
  qed
qed

text \<open>
  The running sum of \<^verbatim>\<open>np.mean\<close>: not-a-number exactly when a term is, or when
  infinities of both signs meet.
\<close>

lemma fold_fadd_kind:
  "fold (\<lambda>x acc. fadd acc x) xs a =
     (if NaN \<in> set (a # xs) \<or> (PInf \<in> set (a # xs) \<and> NInf \<in> set (a # xs)) then NaN
      else if PInf \<in> set (a # xs) then PInf
      else if NInf \<in> set (a # xs) then NInf
      else Fin (sum_list (map the_fin (a # xs))))"
proof (induction xs arbitrary: a)
  case Nil
  show ?case by (cases a) simp_all
next
  case (Cons x xs)
  show ?case
    unfolding fold_Cons comp_apply Cons.IH
    by (cases a; cases x) (auto simp add: algebra_simps)
qed

lemma isnan_np_mean_f:
  assumes "xs \<noteq> []"
  shows "isnan (np_mean_f xs) \<longleftrightarrow> NaN \<in> set xs \<or> (PInf \<in> set xs \<and> NInf \<in> set xs)"
proof -
  have n: "real (length xs) \<noteq> 0" "0 \<le> real (length xs)" using assms by simp_all
  have z: "Fin 0 \<notin> {NaN, PInf, NInf}" by simp
  show ?thesis
    unfolding np_mean_f_def fold_fadd_kind
    using n by (auto simp add: inf_of_sign_def)
qed

lemma np_min_f_nonempty: "xs \<noteq> [] \<Longrightarrow> \<exists>m. np_min_f xs = Inr m"
  by (cases xs) simp_all

lemma analyze_brightness_f_some:
  "\<exists>b. analyze_brightness_f (Some d) = Inr (Some b)
      \<and> priority b = priority_of (r_mean b)
      \<and> (key_r d = [] \<longrightarrow> r_mean b = NaN \<and> r_min b = NaN \<and> r_std b = NaN)
      \<and> (key_r d \<noteq> [] \<longrightarrow> r_mean b = np_mean_f (key_r d))"
proof -
  have r: "key_r d \<noteq> [] \<Longrightarrow> \<exists>m. np_min_f (key_r d) = Inr m"
    and g: "key_g d \<noteq> [] \<Longrightarrow> \<exists>m. np_min_f (key_g d) = Inr m"
    by (rule np_min_f_nonempty, assumption)+
  show ?thesis
  proof (cases "key_r d = []")
    case rT: True
    show ?thesis
    proof (cases "key_g d = []")
      case True
      with rT show ?thesis by (simp add: analyze_brightness_f_def)
    next
      case False
      with g obtain mg where "np_min_f (key_g d) = Inr mg" by blast
      with rT False show ?thesis by (simp add: analyze_brightness_f_def)
    qed
  next
    case rF: False
    with r obtain mr where mr: "np_min_f (key_r d) = Inr mr" by blast
    show ?thesis
    proof (cases "key_g d = []")
      case True
      with rF mr show ?thesis by (simp add: analyze_brightness_f_def)
    next
      case False
      with g obtain mg where "np_min_f (key_g d) = Inr mg" by blast
      with rF mr False show ?thesis by (simp add: analyze_brightness_f_def)
    qed
  qed
qed

lemma finite_samples: "list_all isfinite xs \<Longrightarrow> map Fin (map the_fin xs) = xs"
proof (induction xs)
  case Nil
  show ?case by simp
next
  case (Cons x xs)
  then show ?case by (cases x) simp_all
qed

lemma finite_no_special:
  "list_all isfinite xs \<Longrightarrow> NaN \<notin> set xs \<and> PInf \<notin> set xs \<and> NInf \<notin> set xs"
  by (auto simp add: list_all_iff)

text \<open>
  Claim C8, as amended. For every light curve that is present, of samples that may be
  special values, \<open>analyze_brightness\<close> returns a result whose priority is UNKNOWN if
  and only if the r band has no sample, holds a not-a-number sample, or holds infinite
  samples of both signs (the cases in which the r-band mean is not-a-number). With an
  empty r band the r-band mean, minimum and standard deviation are all not-a-number. When
  every r-band sample is a finite number, the priority is UNKNOWN if and only if the r band
  has no sample, and with a non-empty r band it is the threshold function of the r-band
  mean.
\<close>

theorem unknown_iff_empty_band:
  "\<exists>b. analyze_brightness_f (Some d) = Inr (Some b)
      \<and> (priority b = ''UNKNOWN'' \<longleftrightarrow>
           key_r d = [] \<or> NaN \<in> set (key_r d) \<or> (PInf \<in> set (key_r d) \<and> NInf \<in> set (key_r d)))
      \<and> (priority b = ''UNKNOWN'' \<longleftrightarrow> isnan (r_mean b))
      \<and> (key_r d = [] \<longrightarrow> r_mean b = NaN \<and> r_min b = NaN \<and> r_std b = NaN)
      \<and> (list_all isfinite (key_r d) \<longrightarrow> (priority b = ''UNKNOWN'' \<longleftrightarrow> key_r d = []))
      \<and> (list_all isfinite (key_r d) \<and> key_r d \<noteq> [] \<longrightarrow>
           r_mean b = Fin (band_mean (map the_fin (key_r d)))
           \<and> priority b = priority_tier (band_mean (map the_fin (key_r d))))"
proof -
  obtain b where b: "analyze_brightness_f (Some d) = Inr (Some b)"
    and p: "priority b = priority_of (r_mean b)"
    and e: "key_r d = [] \<longrightarrow> r_mean b = NaN \<and> r_min b = NaN \<and> r_std b = NaN"
    and m: "key_r d \<noteq> [] \<longrightarrow> r_mean b = np_mean_f (key_r d)"
    using analyze_brightness_f_some [of d] by blast
  have u: "priority b = ''UNKNOWN'' \<longleftrightarrow> isnan (r_mean b)"
    unfolding p by (simp add: priority_of_def)
  have k: "isnan (r_mean b) \<longleftrightarrow>
           key_r d = [] \<or> NaN \<in> set (key_r d) \<or> (PInf \<in> set (key_r d) \<and> NInf \<in> set (key_r d))"
  proof (cases "key_r d = []")
    case True
    with e show ?thesis by simp
  next
    case False
    with m isnan_np_mean_f [OF False] show ?thesis by simp
  qed
  have f: "list_all isfinite (key_r d) \<longrightarrow> (priority b = ''UNKNOWN'' \<longleftrightarrow> key_r d = [])"
    using u k finite_no_special [of "key_r d"] by blast
  have t: "list_all isfinite (key_r d) \<and> key_r d \<noteq> [] \<longrightarrow>
           r_mean b = Fin (band_mean (map the_fin (key_r d)))
           \<and> priority b = priority_tier (band_mean (map the_fin (key_r d)))"
  proof
    assume a: "list_all isfinite (key_r d) \<and> key_r d \<noteq> []"
    then have ne: "map the_fin (key_r d) \<noteq> []" by simp
    have "np_mean_f (key_r d) = Fin (band_mean (map the_fin (key_r d)))"
      using np_mean_f_Fin [OF ne] finite_samples [of "key_r d"] a by simp
    with m a have rm: "r_mean b = Fin (band_mean (map the_fin (key_r d)))" by simp
    show "r_mean b = Fin (band_mean (map the_fin (key_r d)))
           \<and> priority b = priority_tier (band_mean (map the_fin (key_r d)))"
      unfolding p rm by (simp add: priority_of_def priority_tier_def)
  qed
  from b u k e f t show ?thesis by blast
qed

text \<open>
  An empty r band beside a non-empty g band; an r band of mean 16.25; an r band with
  infinite samples of both signs.
\<close>

theorem unknown_iff_empty_band_witness:
  "(\<exists>b. analyze_brightness_f (Some \<lparr> key_g = [Fin 14], key_r = [], key_times_g = [Fin 58000], key_times_r = [] \<rparr>) = Inr (Some b)
      \<and> priority b = ''UNKNOWN'' \<and> r_mean b = NaN \<and> r_min b = NaN \<and> r_std b = NaN)
   \<and> list_all isfinite [Fin 16, Fin 16.5]
   \<and> (\<exists>b. analyze_brightness_f (Some \<lparr> key_g = [], key_r = [Fin 16, Fin 16.5], key_times_g = [], key_times_r = [Fin 58000, Fin 58001] \<rparr>) = Inr (Some b)
      \<and> priority b = ''MEDIUM'' \<and> r_mean b = Fin 16.25)
   \<and> (\<exists>b. analyze_brightness_f (Some \<lparr> key_g = [], key_r = [PInf, NInf], key_times_g = [], key_times_r = [Fin 58000, Fin 58001] \<rparr>) = Inr (Some b)
      \<and> priority b = ''UNKNOWN'')"
  using unknown_iff_empty_band [of "\<lparr> key_g = [Fin 14], key_r = [], key_times_g = [Fin 58000], key_times_r = [] \<rparr>"]
        unknown_iff_empty_band [of "\<lparr> key_g = [], key_r = [Fin 16, Fin 16.5], key_times_g = [], key_times_r = [Fin 58000, Fin 58001] \<rparr>"]
        unknown_iff_empty_band [of "\<lparr> key_g = [], key_r = [PInf, NInf], key_times_g = [], key_times_r = [Fin 58000, Fin 58001] \<rparr>"]
  by (auto simp add: band_mean_def priority_tier_def)

text \<open>
  Claim C8 as stated fails: the r band of \<open>lc_nan_sample\<close> has three samples, one of them
  not-a-number, and the priority is UNKNOWN.
\<close>

theorem nan_sample_is_unknown:
  "key_r lc_nan_sample \<noteq> []
   \<and> analyze_brightness_f (Some lc_nan_sample)
       = Inr (Some \<lparr> r_mean = NaN, r_min = NaN, r_std = NaN, g_mean = NaN, g_min = NaN,
                     priority = ''UNKNOWN'' \<rparr>)"
  by (simp add: lc_nan_sample_def analyze_brightness_f_def np_mean_f_def np_std_f_def fmin_def
      fsub_def priority_of_def)

section \<open>The seed of the synthetic light curve\<close>

lemma length_synthetic_times:
  "length (times_g (fst (generate_synthetic_lc env st name ra dec)))
     = nat (fst (randint env 30 150 (rng_seed env (nat (py_hash env name mod 2 ^ 32)))))"
  by (simp add: generate_synthetic_lc_def split_beta Let_def length_draw_n)

text \<open>
  Claim C9 as stated fails: in two processes whose \<^verbatim>\<open>hash\<close> differs (here 7 and 8 on
  every name), the acquisition without network returns light curves of 37 and of 38
  samples per band for the same identifier.
\<close>

theorem other_process_other_light_curve:
  "no_live_network env_offline RequestRaised \<and> no_live_network env_other_process RequestRaised
   \<and> fst (query_ztf_lightcurve env_offline RequestRaised \<lparr> use_real_data = False, np_random = 0 \<rparr>
            (VFloat (Fin 83.8)) (VFloat (Fin (- 5.4))) (VStr ''YSO_1''))
     \<noteq> fst (query_ztf_lightcurve env_other_process RequestRaised \<lparr> use_real_data = False, np_random = 0 \<rparr>
            (VFloat (Fin 83.8)) (VFloat (Fin (- 5.4))) (VStr ''YSO_1''))"
proof -
  have a: "no_live_network env_offline RequestRaised"
    and b: "no_live_network env_other_process RequestRaised"
    by (simp_all add: no_live_network_def env_offline_def env_other_process_def)
  have "length (times_g (fst (generate_synthetic_lc env_offline \<lparr> use_real_data = False, np_random = 0 \<rparr>
            (VStr ''YSO_1'') (VFloat (Fin 83.8)) (VFloat (Fin (- 5.4)))))) = 37"
    unfolding length_synthetic_times by (simp add: env_offline_def randint_def)
  moreover have "length (times_g (fst (generate_synthetic_lc env_other_process \<lparr> use_real_data = False, np_random = 0 \<rparr>
            (VStr ''YSO_1'') (VFloat (Fin 83.8)) (VFloat (Fin (- 5.4)))))) = 38"
    unfolding length_synthetic_times by (simp add: env_offline_def env_other_process_def randint_def)
  ultimately have "fst (generate_synthetic_lc env_offline \<lparr> use_real_data = False, np_random = 0 \<rparr>
            (VStr ''YSO_1'') (VFloat (Fin 83.8)) (VFloat (Fin (- 5.4))))
       \<noteq> fst (generate_synthetic_lc env_other_process \<lparr> use_real_data = False, np_random = 0 \<rparr>
            (VStr ''YSO_1'') (VFloat (Fin 83.8)) (VFloat (Fin (- 5.4))))"
    by (metis numeral_eq_iff semiring_norm(89) Suc_n_not_n eval_nat_numeral(3))
  then show ?thesis
    using a b by (simp add: query_offline)
qed

end
